theory Spec2Isabelle
  imports Complex_Main "HOL-Library.Monad_Syntax"
begin

section \<open>JavaScript values used by the movie store\<close>

text \<open>
  A JavaScript number: a finite double is read as the rational it denotes (both zeros are
  \<open>Fin 0\<close>); \<open>NaN\<close> and the two infinities are kept apart because truthiness and
  \<open>JSON.stringify\<close> treat them differently. Equality of this type is the SameValueZero
  comparison of \<open>Array.prototype.includes\<close> and \<open>Set.prototype.has\<close>.
\<close>

datatype number = Fin rat | NaN | PosInf | NegInf

text \<open>
  A property that the TypeScript interface declares optional (\<open>year?: number\<close>) or that
  is read from an untyped object: it is \<open>undefined\<close>, \<open>null\<close> (what \<open>JSON.stringify\<close>
  writes for a number that is not finite) or a value.
\<close>

datatype 'a maybe = Undefined | Null | Val 'a

fun truthy_number :: "number maybe \<Rightarrow> bool" where
  "truthy_number (Val (Fin q)) = (q \<noteq> 0)"
| "truthy_number (Val NaN) = False"
| "truthy_number (Val PosInf) = True"
| "truthy_number (Val NegInf) = True"
| "truthy_number Undefined = False"
| "truthy_number Null = False"

fun truthy_string :: "string maybe \<Rightarrow> bool" where
  "truthy_string (Val s) = (s \<noteq> [])"
| "truthy_string Undefined = False"
| "truthy_string Null = False"

text \<open>The operator \<open>a || b\<close> at the two types where the store uses it.\<close>

definition or_number :: "number maybe \<Rightarrow> number maybe \<Rightarrow> number maybe" where
  "or_number a b = (if truthy_number a then a else b)"

definition or_string :: "string maybe \<Rightarrow> string maybe \<Rightarrow> string maybe" where
  "or_string a b = (if truthy_string a then a else b)"

section \<open>The persisted list store (src/lib/movieStorage.ts)\<close>

subsection \<open>Data model\<close>

text \<open>
  \<open>StoredMovie\<close>, \<open>MovieLists\<close> and \<open>MovieStorage\<close> are the three interfaces of the
  source. The field \<open>id\<close> is called \<open>movie_id\<close> here (\<open>id\<close> is the identity function of
  HOL). Timestamps are the ISO strings of \<open>new Date().toISOString()\<close>.
\<close>

record StoredMovie =
  movie_id :: string
  title :: string
  year :: "number maybe"
  genre :: "string maybe"
  poster :: "string maybe"
  rating :: "number maybe"
  dateAdded :: string
  dateWatched :: "string maybe"

record MovieLists =
  myList :: "StoredMovie list"
  watchedList :: "StoredMovie list"
  blockedMovies :: "string list"

record MovieStorage =
  lists :: MovieLists
  embeddingProfile :: "number list"
  version :: string

text \<open>
  The argument \<open>movieData: any\<close> of \<open>createStoredMovie\<close>, typed by the properties the
  function reads. Its callers pass objects with a string \<open>id\<close> and \<open>title\<close>.
\<close>

record MovieData =
  md_id :: string
  md_title :: string
  md_year :: "number maybe"
  md_genre :: "string maybe"
  md_posterUrl :: "string maybe"
  md_poster :: "string maybe"
  md_userRating :: "number maybe"
  md_rating :: "number maybe"

definition STORAGE_VERSION :: string where
  "STORAGE_VERSION = ''2.0''"

definition getDefaultStorage :: MovieStorage where
  "getDefaultStorage =
     \<lparr>lists = \<lparr>myList = [], watchedList = [], blockedMovies = []\<rparr>,
      embeddingProfile = [],
      version = STORAGE_VERSION\<rparr>"

subsection \<open>JSON text in device storage\<close>

text \<open>
  The value that \<open>JSON.parse\<close> returns. An object is the list of its properties in order;
  a property read is the first match.
\<close>

datatype json =
  JNull | JBool bool | JNum rat | JStr string | JArr "json list" | JObj "(string \<times> json) list"

text \<open>
  The string kept under \<open>STORAGE_KEY\<close>: either text that \<open>JSON.parse\<close> rejects (the empty
  string is such a text, and is falsy besides), or the text of a JSON value, which is
  identified with that value.
\<close>

datatype stored_text = Malformed | Text json

text \<open>
  The device: whether \<open>window\<close> is defined (it is not during server-side rendering), and
  the entry of \<open>localStorage\<close> under \<open>STORAGE_KEY\<close>, \<open>None\<close> when \<open>getItem\<close> returns
  \<open>null\<close>.
\<close>

record device =
  hasWindow :: bool
  item :: "stored_text option"

text \<open>
  What a call finds in its environment: the clock when \<open>loadMovieData\<close> migrates (what
  each of its reads returns, numbered from 0), the
  clock when the call stamps \<open>dateAdded\<close>, the clock of the second read that stamps
  \<open>dateWatched\<close>, and whether \<open>localStorage.setItem\<close> returns (it throws when the quota
  is exceeded).
\<close>

record call_env =
  loadedAt :: "nat \<Rightarrow> string"
  now :: string
  watchedAt :: string
  setItemOk :: bool

subsubsection \<open>JSON.stringify of a store\<close>

text \<open>
  \<open>JSON.stringify\<close> leaves out a property whose value is \<open>undefined\<close> and writes
  \<open>null\<close> for \<open>null\<close> and for a number that is not finite.
\<close>

fun json_of_number :: "number \<Rightarrow> json" where
  "json_of_number (Fin q) = JNum q"
| "json_of_number NaN = JNull"
| "json_of_number PosInf = JNull"
| "json_of_number NegInf = JNull"

fun number_property :: "string \<Rightarrow> number maybe \<Rightarrow> (string \<times> json) list" where
  "number_property k Undefined = []"
| "number_property k Null = [(k, JNull)]"
| "number_property k (Val n) = [(k, json_of_number n)]"

fun string_property :: "string \<Rightarrow> string maybe \<Rightarrow> (string \<times> json) list" where
  "string_property k Undefined = []"
| "string_property k Null = [(k, JNull)]"
| "string_property k (Val s) = [(k, JStr s)]"

definition json_of_StoredMovie :: "StoredMovie \<Rightarrow> json" where
  "json_of_StoredMovie m =
     JObj ([(''id'', JStr (movie_id m)), (''title'', JStr (title m))]
           @ number_property ''year'' (year m)
           @ string_property ''genre'' (genre m)
           @ string_property ''poster'' (poster m)
           @ number_property ''rating'' (rating m)
           @ [(''dateAdded'', JStr (dateAdded m))]
           @ string_property ''dateWatched'' (dateWatched m))"

definition json_of_MovieStorage :: "MovieStorage \<Rightarrow> json" where
  "json_of_MovieStorage s =
     JObj [(''lists'',
            JObj [(''myList'', JArr (map json_of_StoredMovie (myList (lists s)))),
                  (''watchedList'', JArr (map json_of_StoredMovie (watchedList (lists s)))),
                  (''blockedMovies'', JArr (map JStr (blockedMovies (lists s))))]),
           (''embeddingProfile'', JArr (map json_of_number (embeddingProfile s))),
           (''version'', JStr (version s))]"

subsubsection \<open>Reading a parsed value at the declared types\<close>

text \<open>
  \<open>field v k\<close> is the property read \<open>v.k\<close> on a parsed value other than \<open>null\<close>; \<open>None\<close>
  is \<open>undefined\<close> (a property that is not there, or any property of a number, string,
  boolean or array that JSON text can hold).
\<close>

fun field :: "json \<Rightarrow> string \<Rightarrow> json option" where
  "field (JObj kvs) k = map_of kvs k"
| "field v k = None"

text \<open>
  The casts of the source (\<open>parsed as MovieStorage\<close>, \<open>movie: any\<close>) are not checked at
  run time. The readers below return \<open>None\<close> where a parsed value does not have the type
  its interface declares: such a record is outside this model, and every theorem about a
  stored record shows that the readers return \<open>Some\<close> on it.
\<close>

fun read_string :: "json option \<Rightarrow> string option" where
  "read_string (Some (JStr s)) = Some s"
| "read_string v = None"

fun read_string_maybe :: "json option \<Rightarrow> string maybe option" where
  "read_string_maybe None = Some Undefined"
| "read_string_maybe (Some JNull) = Some Null"
| "read_string_maybe (Some (JStr s)) = Some (Val s)"
| "read_string_maybe (Some v) = None"

fun read_number :: "json \<Rightarrow> number option" where
  "read_number (JNum q) = Some (Fin q)"
| "read_number v = None"

fun read_number_maybe :: "json option \<Rightarrow> number maybe option" where
  "read_number_maybe None = Some Undefined"
| "read_number_maybe (Some JNull) = Some Null"
| "read_number_maybe (Some (JNum q)) = Some (Val (Fin q))"
| "read_number_maybe (Some v) = None"

fun read_array :: "(json \<Rightarrow> 'a option) \<Rightarrow> json option \<Rightarrow> 'a list option" where
  "read_array f (Some (JArr vs)) = those (map f vs)"
| "read_array f v = None"

definition StoredMovie_of_json :: "json \<Rightarrow> StoredMovie option" where
  "StoredMovie_of_json v =
     do {
       i \<leftarrow> read_string (field v ''id'');
       t \<leftarrow> read_string (field v ''title'');
       y \<leftarrow> read_number_maybe (field v ''year'');
       g \<leftarrow> read_string_maybe (field v ''genre'');
       p \<leftarrow> read_string_maybe (field v ''poster'');
       r \<leftarrow> read_number_maybe (field v ''rating'');
       a \<leftarrow> read_string (field v ''dateAdded'');
       w \<leftarrow> read_string_maybe (field v ''dateWatched'');
       Some \<lparr>movie_id = i, title = t, year = y, genre = g, poster = p, rating = r,
             dateAdded = a, dateWatched = w\<rparr>
     }"

definition MovieStorage_of_json :: "json \<Rightarrow> MovieStorage option" where
  "MovieStorage_of_json v =
     do {
       l \<leftarrow> field v ''lists'';
       my \<leftarrow> read_array StoredMovie_of_json (field l ''myList'');
       wa \<leftarrow> read_array StoredMovie_of_json (field l ''watchedList'');
       bl \<leftarrow> read_array (\<lambda>b. read_string (Some b)) (field l ''blockedMovies'');
       ep \<leftarrow> read_array read_number (field v ''embeddingProfile'');
       ve \<leftarrow> read_string (field v ''version'');
       Some \<lparr>lists = \<lparr>myList = my, watchedList = wa, blockedMovies = bl\<rparr>,
             embeddingProfile = ep, version = ve\<rparr>
     }"

subsection \<open>Legacy records\<close>

text \<open>
  \<open>migrateFromOldVersion (oldData: any)\<close> reads \<open>oldData.lists\<close> and six properties of it,
  each under its current name and under its legacy name; of a movie it reads seven
  properties. These records type what it reads.

  A property that holds movies is tested for truthiness and then sent \<open>map\<close>. It is
  \<open>Falsy\<close> (absent, \<open>null\<close>, \<open>false\<close>, \<open>0\<close>, the empty string), \<open>NotArray\<close> (truthy but no
  array: sending it \<open>map\<close> throws a TypeError) or an \<open>Array\<close> of entries, where the entry
  \<open>None\<close> is \<open>null\<close> (reading \<open>movie.id\<close> of it throws a TypeError). A property that
  holds blocked ids is only tested and copied: \<open>None\<close> is a falsy value.
\<close>

record LegacyMovie =
  lm_id :: string
  lm_title :: string
  lm_year :: "number maybe"
  lm_genre :: "string maybe"
  lm_poster :: "string maybe"
  lm_rating :: "number maybe"
  lm_dateAdded :: "string maybe"

datatype legacy_list = Falsy | NotArray | Array "LegacyMovie option list"

record LegacyLists =
  old_myList :: legacy_list
  old_watchedList :: legacy_list
  old_blockedMovies :: "string list option"
  old_wantToWatch :: legacy_list
  old_watched :: legacy_list
  old_blocked :: "string list option"

record OldData =
  old_lists :: "LegacyLists maybe"

text \<open>Truthiness of a parsed JSON value.\<close>

fun truthy :: "json \<Rightarrow> bool" where
  "truthy JNull = False"
| "truthy (JBool b) = b"
| "truthy (JNum q) = (q \<noteq> 0)"
| "truthy (JStr s) = (s \<noteq> [])"
| "truthy (JArr vs) = True"
| "truthy (JObj fs) = True"

definition LegacyMovie_of_json :: "json \<Rightarrow> LegacyMovie option" where
  "LegacyMovie_of_json v =
     do {
       i \<leftarrow> read_string (field v ''id'');
       t \<leftarrow> read_string (field v ''title'');
       y \<leftarrow> read_number_maybe (field v ''year'');
       g \<leftarrow> read_string_maybe (field v ''genre'');
       p \<leftarrow> read_string_maybe (field v ''poster'');
       r \<leftarrow> read_number_maybe (field v ''rating'');
       a \<leftarrow> read_string_maybe (field v ''dateAdded'');
       Some \<lparr>lm_id = i, lm_title = t, lm_year = y, lm_genre = g, lm_poster = p,
             lm_rating = r, lm_dateAdded = a\<rparr>
     }"

text \<open>
  The readers give no value only where a movie that is not \<open>null\<close> has a property of
  another type than \<open>StoredMovie\<close> declares, or where a truthy value under \<open>blockedMovies\<close>
  or \<open>blocked\<close> is no array of strings.
\<close>

fun read_entry :: "json \<Rightarrow> LegacyMovie option option" where
  "read_entry JNull = Some None"
| "read_entry v = map_option Some (LegacyMovie_of_json v)"

fun read_movies :: "json option \<Rightarrow> legacy_list option" where
  "read_movies None = Some Falsy"
| "read_movies (Some (JArr vs)) = map_option Array (those (map read_entry vs))"
| "read_movies (Some v) = Some (if truthy v then NotArray else Falsy)"

fun read_blocked :: "json option \<Rightarrow> string list option option" where
  "read_blocked None = Some None"
| "read_blocked (Some (JArr vs)) = map_option Some (those (map (\<lambda>b. read_string (Some b)) vs))"
| "read_blocked (Some v) = (if truthy v then None else Some None)"

definition LegacyLists_of_json :: "json \<Rightarrow> LegacyLists option" where
  "LegacyLists_of_json l =
     do {
       my \<leftarrow> read_movies (field l ''myList'');
       wa \<leftarrow> read_movies (field l ''watchedList'');
       bm \<leftarrow> read_blocked (field l ''blockedMovies'');
       ww \<leftarrow> read_movies (field l ''wantToWatch'');
       wd \<leftarrow> read_movies (field l ''watched'');
       bl \<leftarrow> read_blocked (field l ''blocked'');
       Some \<lparr>old_myList = my, old_watchedList = wa, old_blockedMovies = bm,
             old_wantToWatch = ww, old_watched = wd, old_blocked = bl\<rparr>
     }"

text \<open>
  A value of \<open>lists\<close> that is no object (a number, a string, a boolean, an array) has none
  of the six properties, so it is read as the lists with all six falsy: migration
  copies nothing from it, whether it is truthy or not.
\<close>

fun OldData_of_json :: "json \<Rightarrow> OldData option" where
  "OldData_of_json v =
     (case field v ''lists'' of
        None \<Rightarrow> Some \<lparr>old_lists = Undefined\<rparr>
      | Some JNull \<Rightarrow> Some \<lparr>old_lists = Null\<rparr>
      | Some l \<Rightarrow> map_option (\<lambda>ll. \<lparr>old_lists = Val ll\<rparr>) (LegacyLists_of_json l))"

text \<open>
  A migration that throws ends in its \<open>catch\<close> whatever the types of the other values
  are, so for data that the readers do not type the throwing is told from the parsed
  value: \<open>if (x) { ... x.map(movie => ... movie.id ...) }\<close> throws when \<open>x\<close> is truthy and
  no array, or an array that holds \<open>null\<close>.
\<close>

fun map_throws :: "json option \<Rightarrow> bool" where
  "map_throws None = False"
| "map_throws (Some (JArr vs)) = (JNull \<in> set vs)"
| "map_throws (Some v) = truthy v"

definition migration_throws :: "json \<Rightarrow> bool" where
  "migration_throws oldData =
     (case field oldData ''lists'' of
        None \<Rightarrow> False
      | Some l \<Rightarrow>
          truthy l \<and> (map_throws (field l ''myList'') \<or> map_throws (field l ''watchedList'')
                      \<or> map_throws (field l ''wantToWatch'') \<or> map_throws (field l ''watched'')))"

subsection \<open>Loading, migrating and saving\<close>

text \<open>
  The clock of one load: \<open>clock k\<close> is what the read number \<open>k\<close> of
  \<open>new Date().toISOString()\<close> returns, counted from 0 within the load.
\<close>

type_synonym clock = "nat \<Rightarrow> string"

text \<open>\<open>a || b\<close> where \<open>b\<close> is a string: \<open>movie.dateAdded || new Date().toISOString()\<close>.\<close>

fun or_else_string :: "string maybe \<Rightarrow> string \<Rightarrow> string" where
  "or_else_string (Val s) t = (if s \<noteq> [] then s else t)"
| "or_else_string Undefined t = t"
| "or_else_string Null t = t"

text \<open>
  The arrow function that all four \<open>map\<close> calls of the migration apply; \<open>t\<close> is what the
  clock returns if this application reads it, which it does exactly when
  \<open>movie.dateAdded\<close> is falsy.
\<close>

definition migrateMovie :: "string \<Rightarrow> LegacyMovie \<Rightarrow> StoredMovie" where
  "migrateMovie t movie =
     \<lparr>movie_id = lm_id movie,
      title = lm_title movie,
      year = lm_year movie,
      genre = lm_genre movie,
      poster = lm_poster movie,
      rating = lm_rating movie,
      dateAdded = or_else_string (lm_dateAdded movie) t,
      dateWatched = Undefined\<rparr>"

text \<open>
  \<open>entries.map(movie => ...)\<close> from left to right, \<open>k\<close> clock reads having been made
  before: the mapped movies and the number of reads made after, or \<open>None\<close> when the
  arrow function throws at a \<open>null\<close> entry.
\<close>

fun mapMovies :: "clock \<Rightarrow> nat \<Rightarrow> LegacyMovie option list \<Rightarrow> (StoredMovie list \<times> nat) option" where
  "mapMovies c k [] = Some ([], k)"
| "mapMovies c k (None # entries) = None"
| "mapMovies c k (Some movie # entries) =
     (case mapMovies c (if truthy_string (lm_dateAdded movie) then k else Suc k) entries of
        None \<Rightarrow> None
      | Some (movies, k') \<Rightarrow> Some (migrateMovie (c k) movie # movies, k'))"

text \<open>
  One \<open>if (oldData.lists.name) { ... = oldData.lists.name.map(...) }\<close>: \<open>Some (None, k)\<close> when
  the test fails, \<open>Some (Some movies, k')\<close> when the list was mapped, \<open>None\<close> when a
  TypeError was thrown.
\<close>

fun mapList :: "clock \<Rightarrow> nat \<Rightarrow> legacy_list \<Rightarrow> (StoredMovie list option \<times> nat) option" where
  "mapList c k Falsy = Some (None, k)"
| "mapList c k NotArray = None"
| "mapList c k (Array entries) =
     (case mapMovies c k entries of
        None \<Rightarrow> None
      | Some (movies, k') \<Rightarrow> Some (Some movies, k'))"

text \<open>
  The six \<open>if\<close> statements of the source in their order: the three current names, then
  the three legacy names. The result is \<open>None\<close> when one of them throws.
\<close>

definition migrateLists :: "clock \<Rightarrow> LegacyLists \<Rightarrow> MovieStorage \<Rightarrow> MovieStorage option" where
  "migrateLists c l newStorage =
     (case mapList c 0 (old_myList l) of
        None \<Rightarrow> None
      | Some (my, k1) \<Rightarrow>
          let s1 = (case my of
                      Some ms \<Rightarrow> newStorage\<lparr>lists := (lists newStorage)\<lparr>myList := ms\<rparr>\<rparr>
                    | None \<Rightarrow> newStorage)
          in (case mapList c k1 (old_watchedList l) of
                None \<Rightarrow> None
              | Some (wa, k2) \<Rightarrow>
                  let s2 = (case wa of
                              Some ms \<Rightarrow> s1\<lparr>lists := (lists s1)\<lparr>watchedList := ms\<rparr>\<rparr>
                            | None \<Rightarrow> s1);
                      s3 = (case old_blockedMovies l of
                              Some bs \<Rightarrow> s2\<lparr>lists := (lists s2)\<lparr>blockedMovies := bs\<rparr>\<rparr>
                            | None \<Rightarrow> s2)
                  in (case mapList c k2 (old_wantToWatch l) of
                        None \<Rightarrow> None
                      | Some (ww, k3) \<Rightarrow>
                          let s4 = (case ww of
                                      Some ms \<Rightarrow> s3\<lparr>lists := (lists s3)\<lparr>myList := ms\<rparr>\<rparr>
                                    | None \<Rightarrow> s3)
                          in (case mapList c k3 (old_watched l) of
                                None \<Rightarrow> None
                              | Some (wd, k4) \<Rightarrow>
                                  let s5 = (case wd of
                                              Some ms \<Rightarrow> s4\<lparr>lists := (lists s4)\<lparr>watchedList := ms\<rparr>\<rparr>
                                            | None \<Rightarrow> s4);
                                      s6 = (case old_blocked l of
                                              Some bs \<Rightarrow> s5\<lparr>lists := (lists s5)\<lparr>blockedMovies := bs\<rparr>\<rparr>
                                            | None \<Rightarrow> s5)
                                  in Some s6))))"

text \<open>
  \<open>migrateFromOldVersion\<close>: the \<open>try\<close> block migrates the lists when \<open>oldData.lists\<close> is
  truthy and sets \<open>embeddingProfile\<close>; the \<open>catch\<close> block returns a fresh default storage.
\<close>

definition migrateFromOldVersion :: "clock \<Rightarrow> OldData \<Rightarrow> MovieStorage" where
  "migrateFromOldVersion c oldData =
     (let newStorage = getDefaultStorage in
      case (case old_lists oldData of
              Val l \<Rightarrow> migrateLists c l newStorage
            | _ \<Rightarrow> Some newStorage) of
        Some migrated \<Rightarrow> migrated\<lparr>embeddingProfile := []\<rparr>
      | None \<Rightarrow> getDefaultStorage)"

text \<open>
  \<open>loadMovieData\<close>. The default storage is returned without a window, without an entry,
  for text that \<open>JSON.parse\<close> rejects and for the text \<open>null\<close> (reading \<open>parsed.version\<close>
  throws a TypeError, which the \<open>catch\<close> turns into the default storage). \<open>c\<close> is the
  clock during a migration. A text of another version is migrated; where the readers do
  not type it, the load has a value in this model only if the migration throws.
\<close>

definition loadMovieData :: "clock \<Rightarrow> device \<Rightarrow> MovieStorage option" where
  "loadMovieData c dev =
     (if \<not> hasWindow dev then Some getDefaultStorage
      else case item dev of
        None \<Rightarrow> Some getDefaultStorage
      | Some Malformed \<Rightarrow> Some getDefaultStorage
      | Some (Text parsed) \<Rightarrow>
          if parsed = JNull then Some getDefaultStorage
          else if field parsed ''version'' \<noteq> Some (JStr STORAGE_VERSION)
          then (case OldData_of_json parsed of
                  Some oldData \<Rightarrow> Some (migrateFromOldVersion c oldData)
                | None \<Rightarrow> if migration_throws parsed then Some getDefaultStorage else None)
          else MovieStorage_of_json parsed)"

text \<open>
  \<open>saveMovieData\<close>, applied to the value that \<open>JSON.stringify(data)\<close> writes. \<open>accepted\<close> tells
  whether \<open>localStorage.setItem\<close> returns; when it throws, the entry keeps its old text.
\<close>

definition saveMovieData :: "bool \<Rightarrow> json \<Rightarrow> device \<Rightarrow> bool \<times> device" where
  "saveMovieData accepted data dev =
     (if \<not> hasWindow dev then (False, dev)
      else if accepted then (True, dev\<lparr>item := Some (Text data)\<rparr>)
      else (False, dev))"

subsection \<open>The mutators\<close>

definition createStoredMovie :: "string \<Rightarrow> MovieData \<Rightarrow> StoredMovie" where
  "createStoredMovie t movieData =
     \<lparr>movie_id = md_id movieData,
      title = md_title movieData,
      year = md_year movieData,
      genre = md_genre movieData,
      poster = or_string (md_posterUrl movieData) (md_poster movieData),
      rating = or_number (md_userRating movieData) (md_rating movieData),
      dateAdded = t,
      dateWatched = Undefined\<rparr>"

text \<open>\<open>Array.prototype.findIndex\<close>: the first index whose element passes, \<open>None\<close> for -1.\<close>

fun findIndex :: "('a \<Rightarrow> bool) \<Rightarrow> 'a list \<Rightarrow> nat option" where
  "findIndex p [] = None"
| "findIndex p (x # xs) =
     (if p x then Some 0 else map_option Suc (findIndex p xs))"

text \<open>
  Every mutator returns the storage object it hands back to its caller and the device
  after the call; \<open>None\<close> only when \<open>loadMovieData\<close> found a record outside the model.
\<close>

definition addToWantToWatchList ::
  "call_env \<Rightarrow> MovieData \<Rightarrow> device \<Rightarrow> (MovieStorage \<times> device) option" where
  "addToWantToWatchList e movieData dev =
     (case loadMovieData (loadedAt e) dev of
        None \<Rightarrow> None
      | Some storage \<Rightarrow>
          let movie = createStoredMovie (now e) movieData;
              existsInMyList = list_ex (\<lambda>m. movie_id m = movie_id movie) (myList (lists storage));
              existsInWatched = list_ex (\<lambda>m. movie_id m = movie_id movie) (watchedList (lists storage))
          in if \<not> existsInMyList \<and> \<not> existsInWatched
             then let storage' = storage\<lparr>lists := (lists storage)\<lparr>myList := myList (lists storage) @ [movie]\<rparr>\<rparr>
                  in Some (storage', snd (saveMovieData (setItemOk e) (json_of_MovieStorage storage') dev))
             else Some (storage, dev))"

definition addToMyList ::
  "call_env \<Rightarrow> MovieData \<Rightarrow> device \<Rightarrow> (MovieStorage \<times> device) option" where
  "addToMyList e movieData dev =
     (case loadMovieData (loadedAt e) dev of
        None \<Rightarrow> None
      | Some storage \<Rightarrow>
          let movie = createStoredMovie (now e) movieData;
              existsInMyList = list_ex (\<lambda>m. movie_id m = movie_id movie) (myList (lists storage));
              existsInWatched = list_ex (\<lambda>m. movie_id m = movie_id movie) (watchedList (lists storage))
          in if \<not> existsInMyList \<and> \<not> existsInWatched
             then let storage' = storage\<lparr>lists := (lists storage)\<lparr>myList := myList (lists storage) @ [movie]\<rparr>\<rparr>
                  in Some (storage', snd (saveMovieData (setItemOk e) (json_of_MovieStorage storage') dev))
             else Some (storage, dev))"

definition addToWatchedList ::
  "call_env \<Rightarrow> MovieData \<Rightarrow> device \<Rightarrow> (MovieStorage \<times> device) option" where
  "addToWatchedList e movieData dev =
     (case loadMovieData (loadedAt e) dev of
        None \<Rightarrow> None
      | Some storage \<Rightarrow>
          let movie = (createStoredMovie (now e) movieData)\<lparr>dateWatched := Val (watchedAt e)\<rparr>;
              kept = filter (\<lambda>m. movie_id m \<noteq> movie_id movie) (myList (lists storage));
              watched = watchedList (lists storage);
              watched' = (case findIndex (\<lambda>m. movie_id m = movie_id movie) watched of
                            Some existingIndex \<Rightarrow> watched[existingIndex := movie]
                          | None \<Rightarrow> movie # watched);
              storage' = storage\<lparr>lists := (lists storage)\<lparr>myList := kept, watchedList := watched'\<rparr>\<rparr>
          in Some (storage', snd (saveMovieData (setItemOk e) (json_of_MovieStorage storage') dev)))"

datatype listType = MyList | WatchedList

definition removeFromList ::
  "call_env \<Rightarrow> string \<Rightarrow> listType \<Rightarrow> device \<Rightarrow> (MovieStorage \<times> device) option" where
  "removeFromList e movieId lt dev =
     (case loadMovieData (loadedAt e) dev of
        None \<Rightarrow> None
      | Some storage \<Rightarrow>
          let storage' =
                (if lt = MyList
                 then storage\<lparr>lists := (lists storage)
                        \<lparr>myList := filter (\<lambda>m. movie_id m \<noteq> movieId) (myList (lists storage))\<rparr>\<rparr>
                 else storage\<lparr>lists := (lists storage)
                        \<lparr>watchedList := filter (\<lambda>m. movie_id m \<noteq> movieId) (watchedList (lists storage))\<rparr>\<rparr>)
          in Some (storage', snd (saveMovieData (setItemOk e) (json_of_MovieStorage storage') dev)))"

text \<open>
  \<open>splice(movieIndex, 1)\<close> removes the element at the index; the spread
  \<open>{...movie, dateAdded: ...}\<close> copies the entry with a new \<open>dateAdded\<close>.
\<close>

definition moveToWantToWatchList ::
  "call_env \<Rightarrow> string \<Rightarrow> device \<Rightarrow> (MovieStorage \<times> device) option" where
  "moveToWantToWatchList e movieId dev =
     (case loadMovieData (loadedAt e) dev of
        None \<Rightarrow> None
      | Some storage \<Rightarrow>
          let watched = watchedList (lists storage) in
          (case findIndex (\<lambda>m. movie_id m = movieId) watched of
             Some movieIndex \<Rightarrow>
               let movie = watched ! movieIndex;
                   storage' = storage\<lparr>lists := (lists storage)
                     \<lparr>myList := myList (lists storage) @ [movie\<lparr>dateAdded := now e\<rparr>],
                      watchedList := take movieIndex watched @ drop (Suc movieIndex) watched\<rparr>\<rparr>
               in Some (storage', snd (saveMovieData (setItemOk e) (json_of_MovieStorage storage') dev))
           | None \<Rightarrow> Some (storage, dev)))"

definition moveToMyList ::
  "call_env \<Rightarrow> string \<Rightarrow> device \<Rightarrow> (MovieStorage \<times> device) option" where
  "moveToMyList e movieId dev =
     (case loadMovieData (loadedAt e) dev of
        None \<Rightarrow> None
      | Some storage \<Rightarrow>
          let watched = watchedList (lists storage) in
          (case findIndex (\<lambda>m. movie_id m = movieId) watched of
             Some movieIndex \<Rightarrow>
               let movie = watched ! movieIndex;
                   storage' = storage\<lparr>lists := (lists storage)
                     \<lparr>myList := myList (lists storage) @ [movie\<lparr>dateAdded := now e\<rparr>],
                      watchedList := take movieIndex watched @ drop (Suc movieIndex) watched\<rparr>\<rparr>
               in Some (storage', snd (saveMovieData (setItemOk e) (json_of_MovieStorage storage') dev))
           | None \<Rightarrow> Some (storage, dev)))"

definition reorderMyList ::
  "call_env \<Rightarrow> StoredMovie list \<Rightarrow> device \<Rightarrow> (MovieStorage \<times> device) option" where
  "reorderMyList e newOrder dev =
     (case loadMovieData (loadedAt e) dev of
        None \<Rightarrow> None
      | Some storage \<Rightarrow>
          let storage' = storage\<lparr>lists := (lists storage)\<lparr>myList := newOrder\<rparr>\<rparr>
          in Some (storage', snd (saveMovieData (setItemOk e) (json_of_MovieStorage storage') dev)))"

definition blockMovie ::
  "call_env \<Rightarrow> string \<Rightarrow> device \<Rightarrow> (MovieStorage \<times> device) option" where
  "blockMovie e movieId dev =
     (case loadMovieData (loadedAt e) dev of
        None \<Rightarrow> None
      | Some storage \<Rightarrow>
          if movieId \<notin> set (blockedMovies (lists storage))
          then let storage' = storage\<lparr>lists := (lists storage)
                       \<lparr>blockedMovies := blockedMovies (lists storage) @ [movieId]\<rparr>\<rparr>
               in Some (storage', snd (saveMovieData (setItemOk e) (json_of_MovieStorage storage') dev))
          else Some (storage, dev))"

definition clearAllData :: "device \<Rightarrow> device" where
  "clearAllData dev = (if hasWindow dev then dev\<lparr>item := None\<rparr> else dev)"

text \<open>
  \<open>exportData\<close> returns the text of the loaded store and \<open>importData\<close> parses a text and
  saves the value: \<open>JSON.stringify (JSON.parse jsonData)\<close> is text of the same value.
\<close>

definition exportData :: "clock \<Rightarrow> device \<Rightarrow> stored_text option" where
  "exportData c dev = map_option (\<lambda>storage. Text (json_of_MovieStorage storage)) (loadMovieData c dev)"

definition importData :: "bool \<Rightarrow> stored_text \<Rightarrow> device \<Rightarrow> bool \<times> device" where
  "importData accepted jsonData dev =
     (case jsonData of
        Malformed \<Rightarrow> (False, dev)
      | Text data \<Rightarrow> saveMovieData accepted data dev)"

subsection \<open>Sequences of calls\<close>

text \<open>
  The public mutators as a datatype, the device after one call, and the device after a
  sequence of calls, each call with its own environment.
\<close>

datatype call =
    AddToMyList MovieData
  | AddToWantToWatchList MovieData
  | AddToWatchedList MovieData
  | RemoveFromList string listType
  | MoveToWantToWatchList string
  | MoveToMyList string
  | ReorderMyList "StoredMovie list"
  | BlockMovie string
  | ClearAllData

fun perform :: "call_env \<Rightarrow> call \<Rightarrow> device \<Rightarrow> device option" where
  "perform e (AddToMyList movieData) dev = map_option snd (addToMyList e movieData dev)"
| "perform e (AddToWantToWatchList movieData) dev = map_option snd (addToWantToWatchList e movieData dev)"
| "perform e (AddToWatchedList movieData) dev = map_option snd (addToWatchedList e movieData dev)"
| "perform e (RemoveFromList movieId lt) dev = map_option snd (removeFromList e movieId lt dev)"
| "perform e (MoveToWantToWatchList movieId) dev = map_option snd (moveToWantToWatchList e movieId dev)"
| "perform e (MoveToMyList movieId) dev = map_option snd (moveToMyList e movieId dev)"
| "perform e (ReorderMyList newOrder) dev = map_option snd (reorderMyList e newOrder dev)"
| "perform e (BlockMovie movieId) dev = map_option snd (blockMovie e movieId dev)"
| "perform e ClearAllData dev = Some (clearAllData dev)"

fun run :: "(call_env \<times> call) list \<Rightarrow> device \<Rightarrow> device option" where
  "run [] dev = Some dev"
| "run ((e, c) # cs) dev =
     (case perform e c dev of None \<Rightarrow> None | Some dev' \<Rightarrow> run cs dev')"

text \<open>
  The calls that classify a movie: every mutator but \<open>reorderMyList\<close>, which replaces
  \<open>myList\<close> by whatever array its caller passes.
\<close>

fun classifies :: "call \<Rightarrow> bool" where
  "classifies (ReorderMyList newOrder) = False"
| "classifies c = True"

subsection \<open>Properties of a store\<close>

text \<open>No movie id is in both \<open>myList\<close> and \<open>watchedList\<close>.\<close>

definition disjoint_lists :: "MovieStorage \<Rightarrow> bool" where
  "disjoint_lists s =
     (set (map movie_id (myList (lists s))) \<inter> set (map movie_id (watchedList (lists s))) = {})"

text \<open>
  What \<open>JSON.parse (JSON.stringify s)\<close> reads back: a number that is not finite has
  become \<open>null\<close>, everything else is as it was.
\<close>

fun reparse_number :: "number maybe \<Rightarrow> number maybe" where
  "reparse_number (Val (Fin q)) = Val (Fin q)"
| "reparse_number (Val NaN) = Null"
| "reparse_number (Val PosInf) = Null"
| "reparse_number (Val NegInf) = Null"
| "reparse_number Undefined = Undefined"
| "reparse_number Null = Null"

definition reparse_StoredMovie :: "StoredMovie \<Rightarrow> StoredMovie" where
  "reparse_StoredMovie m = m\<lparr>year := reparse_number (year m), rating := reparse_number (rating m)\<rparr>"

definition reparse_MovieStorage :: "MovieStorage \<Rightarrow> MovieStorage" where
  "reparse_MovieStorage s =
     s\<lparr>lists := (lists s)\<lparr>myList := map reparse_StoredMovie (myList (lists s)),
                          watchedList := map reparse_StoredMovie (watchedList (lists s))\<rparr>\<rparr>"

text \<open>
  Invariants for the proofs: the shape every saved store has, the invariant of the
  classifying calls, and a device whose entry, if any, is the text of a store with a
  given property.
\<close>

definition store_shape :: "MovieStorage \<Rightarrow> bool" where
  "store_shape s = (version s = STORAGE_VERSION \<and> embeddingProfile s = [])"

definition store_invariant :: "MovieStorage \<Rightarrow> bool" where
  "store_invariant s =
     (store_shape s \<and> distinct (map movie_id (watchedList (lists s))) \<and> disjoint_lists s)"

definition device_holds :: "(MovieStorage \<Rightarrow> bool) \<Rightarrow> device \<Rightarrow> bool" where
  "device_holds P dev =
     (item dev = None \<or> (\<exists>s. item dev = Some (Text (json_of_MovieStorage s)) \<and> P s))"

text \<open>
  What a migration finds in a legacy list: whether mapping it throws, the movies it
  holds, how often mapping these reads the clock, and the stored movies that mapping
  them gives when \<open>k\<close> reads were made before.
\<close>

fun throws :: "legacy_list \<Rightarrow> bool" where
  "throws Falsy = False"
| "throws NotArray = True"
| "throws (Array entries) = (None \<in> set entries)"

fun present :: "'a option list \<Rightarrow> 'a list" where
  "present [] = []"
| "present (None # entries) = present entries"
| "present (Some x # entries) = x # present entries"

fun movies_of :: "legacy_list \<Rightarrow> LegacyMovie list" where
  "movies_of (Array entries) = present entries"
| "movies_of Falsy = []"
| "movies_of NotArray = []"

definition reads :: "legacy_list \<Rightarrow> nat" where
  "reads x = length (filter (\<lambda>movie. \<not> truthy_string (lm_dateAdded movie)) (movies_of x))"

fun stamped :: "clock \<Rightarrow> nat \<Rightarrow> LegacyMovie list \<Rightarrow> StoredMovie list" where
  "stamped c k [] = []"
| "stamped c k (movie # movies) =
     migrateMovie (c k) movie
       # stamped c (if truthy_string (lm_dateAdded movie) then k else Suc k) movies"

section \<open>The fetch primitive and the movie source (src/lib/tmdb.ts)\<close>

subsection \<open>Movies, requests and the network\<close>

text \<open>
  \<open>TMDBMovie\<close>, with the type of \<open>id\<close> left open: the provider sends a number, the bundled
  file may hold a string. The field \<open>id\<close> is \<open>tmdb_id\<close> and \<open>title\<close> is \<open>tmdb_title\<close> here.
  \<open>poster_path\<close> and \<open>backdrop_path\<close> are \<open>string | null\<close>.
\<close>

record 'i tmdb_movie =
  tmdb_id :: 'i
  tmdb_title :: string
  overview :: string
  poster_path :: "string option"
  backdrop_path :: "string option"
  release_date :: string
  vote_average :: number
  vote_count :: number
  genre_ids :: "number list"

type_synonym TMDBMovie = "number tmdb_movie"

datatype raw_id = IdString string | IdNumber number

text \<open>The URLs that \<open>getRecommendations\<close> requests, by what varies in them.\<close>

datatype timeWindow = Day | Week

datatype url =
    PopularUrl nat
  | TrendingUrl timeWindow
  | SimilarUrl number nat
  | FallbackUrl

fun is_provider :: "url \<Rightarrow> bool" where
  "is_provider FallbackUrl = False"
| "is_provider u = True"

text \<open>
  What \<open>response.json()\<close> gives: it rejects (\<open>Unparsable\<close>), or it returns an object with
  an array \<open>results\<close>, or an object with an array \<open>popular\<close>, or another value, which has
  neither property. An entry of either array may be \<open>null\<close> (\<open>None\<close>).
\<close>

datatype payload =
    Unparsable
  | SearchResponse "TMDBMovie option list"
  | FallbackData "raw_id tmdb_movie option list"
  | OtherJson

record response =
  ok :: bool
  body :: payload

text \<open>
  One request: how it ends (the promise of \<open>fetch\<close> rejects, or it resolves with a
  response), and whether that takes longer than \<open>RETRY_CONFIG.timeout\<close>. Every request is
  taken to end.
\<close>

datatype outcome = Rejects | Responds response

record attempt =
  slow :: bool
  outcome :: outcome

datatype error = AbortError | TypeError | SyntaxError | Error string

text \<open>
  What the module finds around it: the credential \<open>process.env.TMDB_API_KEY\<close>, the
  platform's \<open>parseInt\<close>, and the network, which answers a request by its URL and by the
  number of events logged before it.
\<close>

record env =
  TMDB_API_KEY :: "string option"
  parseInt :: "string \<Rightarrow> number"
  net :: "nat \<Rightarrow> url \<Rightarrow> attempt"

text \<open>\<open>!TMDB_API_KEY\<close> holds for \<open>undefined\<close> and for the empty string.\<close>

definition has_key :: "env \<Rightarrow> bool" where
  "has_key e = (case TMDB_API_KEY e of None \<Rightarrow> False | Some k \<Rightarrow> k \<noteq> [])"

text \<open>
  The state of the module: the variable \<open>cachedFallbackMovies\<close> (\<open>None\<close> is \<open>null\<close>) and
  a log of the requests sent and of the delays waited, in order.
\<close>

datatype event = Fetch url | Delay nat

record world =
  cachedFallbackMovies :: "TMDBMovie list option"
  log :: "event list"

definition maxRetries :: int where
  "maxRetries = 2"

definition retryDelay :: nat where
  "retryDelay = 500"

subsection \<open>fetchWithRetry\<close>

text \<open>
  One attempt logs its request. A slow attempt is aborted by the timer: \<open>fetch\<close> rejects
  with an AbortError and \<open>controller.signal.aborted\<close> is true. Otherwise the attempt
  rejects (a TypeError), or responds; a response that is not \<open>ok\<close> is thrown as an Error
  (its message, which names the status, is shortened here).
  The \<open>catch\<close> retries when \<open>retries > 0 && !controller.signal.aborted\<close>, after the delay.
\<close>

function fetchWithRetry :: "env \<Rightarrow> url \<Rightarrow> int \<Rightarrow> world \<Rightarrow> (error + response) \<times> world" where
  "fetchWithRetry e u retries w =
     (let a = net e (length (log w)) u;
          w1 = w\<lparr>log := log w @ [Fetch u]\<rparr>;
          aborted = slow a;
          result = (if slow a then Inl AbortError
                    else case outcome a of
                      Rejects \<Rightarrow> Inl TypeError
                    | Responds r \<Rightarrow> if \<not> ok r then Inl (Error ''HTTP'') else Inr r)
      in case result of
           Inr r \<Rightarrow> (Inr r, w1)
         | Inl err \<Rightarrow>
             if retries > 0 \<and> \<not> aborted
             then fetchWithRetry e u (retries - 1) (w1\<lparr>log := log w1 @ [Delay retryDelay]\<rparr>)
             else (Inl err, w1))"
  by pat_completeness auto
termination
  by (relation "measure (\<lambda>(e, u, retries, w). nat retries)") auto

declare fetchWithRetry.simps [simp del]

text \<open>A plain \<open>fetch\<close> has no timer: it ends as the request ends.\<close>

definition fetch :: "env \<Rightarrow> url \<Rightarrow> world \<Rightarrow> (error + response) \<times> world" where
  "fetch e u w =
     (case outcome (net e (length (log w)) u) of
        Rejects \<Rightarrow> Inl TypeError
      | Responds r \<Rightarrow> Inr r,
      w\<lparr>log := log w @ [Fetch u]\<rparr>)"

definition json :: "response \<Rightarrow> error + payload" where
  "json r = (case body r of Unparsable \<Rightarrow> Inl SyntaxError | p \<Rightarrow> Inr p)"

subsection \<open>The provider calls\<close>

definition getPopularMovies :: "env \<Rightarrow> nat \<Rightarrow> world \<Rightarrow> (error + payload) \<times> world" where
  "getPopularMovies e page w =
     (if \<not> has_key e then (Inl (Error ''TMDB API key is not configured''), w)
      else case fetchWithRetry e (PopularUrl page) maxRetries w of
        (Inl err, w') \<Rightarrow> (Inl (Error ''Failed to get popular movies''), w')
      | (Inr r, w') \<Rightarrow> (json r, w'))"

definition getTrendingMovies :: "env \<Rightarrow> timeWindow \<Rightarrow> world \<Rightarrow> (error + payload) \<times> world" where
  "getTrendingMovies e tw w =
     (if \<not> has_key e then (Inl (Error ''TMDB API key is not configured''), w)
      else case fetchWithRetry e (TrendingUrl tw) maxRetries w of
        (Inl err, w') \<Rightarrow> (Inl (Error ''Failed to get trending movies''), w')
      | (Inr r, w') \<Rightarrow> (json r, w'))"

definition getSimilarMovies :: "env \<Rightarrow> number \<Rightarrow> nat \<Rightarrow> world \<Rightarrow> (error + payload) \<times> world" where
  "getSimilarMovies e movieId page w =
     (if \<not> has_key e then (Inl (Error ''TMDB API key is not configured''), w)
      else case fetch e (SimilarUrl movieId page) w of
        (Inl err, w') \<Rightarrow> (Inl err, w')
      | (Inr r, w') \<Rightarrow>
          if \<not> ok r then (Inl (Error ''Failed to get similar movies''), w')
          else (json r, w'))"

subsection \<open>The fallback movies\<close>

definition hardcodedFallback :: "TMDBMovie list" where
  "hardcodedFallback =
     [\<lparr>tmdb_id = Fin 550,
       tmdb_title = ''Fight Club'',
       overview = ''A ticking-time-bomb insomniac and a slippery soap salesman channel primal male aggression into a shocking new form of therapy.'',
       poster_path = Some ''/pB8BM7pdSp6B6Ih7QZ4DrQ3PmJK.jpg'',
       backdrop_path = None,
       release_date = ''1999-10-15'',
       vote_average = Fin (84 / 10),
       vote_count = Fin 26280,
       genre_ids = [Fin 18, Fin 53]\<rparr>,
      \<lparr>tmdb_id = Fin 278,
       tmdb_title = ''The Shawshank Redemption'',
       overview = ''Framed in the 1940s for the double murder of his wife and her lover, upstanding banker Andy Dufresne begins a new life at the Shawshank prison.'',
       poster_path = Some ''/q6y0Go1tsGEsmtFryDOJo3dEmqu.jpg'',
       backdrop_path = None,
       release_date = ''1994-09-23'',
       vote_average = Fin (87 / 10),
       vote_count = Fin 24916,
       genre_ids = [Fin 18, Fin 80]\<rparr>]"

text \<open>
  The arrow function of \<open>data.popular.map\<close>: the spread copies the movie, and \<open>id\<close> is
  \<open>typeof movie.id === 'string' ? parseInt(movie.id) : movie.id\<close>.
\<close>

definition coerce_id :: "env \<Rightarrow> raw_id tmdb_movie \<Rightarrow> TMDBMovie" where
  "coerce_id e movie =
     \<lparr>tmdb_id = (case tmdb_id movie of IdString s \<Rightarrow> parseInt e s | IdNumber n \<Rightarrow> n),
      tmdb_title = tmdb_title movie,
      overview = overview movie,
      poster_path = poster_path movie,
      backdrop_path = backdrop_path movie,
      release_date = release_date movie,
      vote_average = vote_average movie,
      vote_count = vote_count movie,
      genre_ids = genre_ids movie\<rparr>"

text \<open>
  The \<open>try\<close> block of \<open>loadFallbackMovies\<close> ends in its \<open>catch\<close> when \<open>fetch\<close> rejects, when
  the response is not \<open>ok\<close>, when \<open>response.json()\<close> rejects, when \<open>data.popular\<close> is not
  there (calling \<open>map\<close> on \<open>undefined\<close> is a TypeError) and when an entry is \<open>null\<close>
  (reading \<open>movie.id\<close> is a TypeError). \<open>bundled\<close> gives the mapped movies when none of
  this happens.
\<close>

definition bundled :: "env \<Rightarrow> error + response \<Rightarrow> TMDBMovie list option" where
  "bundled e res =
     (case res of
        Inl err \<Rightarrow> None
      | Inr r \<Rightarrow>
          if \<not> ok r then None
          else (case body r of
                  FallbackData popular \<Rightarrow> map_option (map (coerce_id e)) (those popular)
                | p \<Rightarrow> None))"

text \<open>
  \<open>if (cachedFallbackMovies)\<close> holds for every array, the empty one too. The function
  catches all it throws, so its result is always \<open>Inr\<close>.
\<close>

definition loadFallbackMovies :: "env \<Rightarrow> world \<Rightarrow> (error + TMDBMovie list) \<times> world" where
  "loadFallbackMovies e w =
     (case cachedFallbackMovies w of
        Some cached \<Rightarrow> (Inr cached, w)
      | None \<Rightarrow>
          (case fetch e FallbackUrl w of
             (res, w') \<Rightarrow>
               (case bundled e res of
                  Some movies \<Rightarrow> (Inr movies, w'\<lparr>cachedFallbackMovies := Some movies\<rparr>)
                | None \<Rightarrow> (Inr hardcodedFallback, w'\<lparr>cachedFallbackMovies := Some hardcodedFallback\<rparr>))))"

subsection \<open>getRecommendations\<close>

text \<open>
  \<open>results_of\<close> is what a strategy appends: \<open>popular.results\<close> of a successful call.
  A failed call, and a value without an array \<open>results\<close> (spreading \<open>undefined\<close> is a
  TypeError), end in the \<open>catch\<close> of the strategy, which appends nothing.
\<close>

fun results_of :: "error + payload \<Rightarrow> TMDBMovie option list option" where
  "results_of (Inr (SearchResponse rs)) = Some rs"
| "results_of r = None"

text \<open>
  Strategy 3: of a watched movie only \<open>id\<close> is read, so \<open>watchedMovies\<close> is the list of
  these ids. The loop leaves with \<open>break\<close> at 25 recommendations; a failed lookup goes on
  to the next movie.
\<close>

fun similarLoop ::
  "env \<Rightarrow> string list \<Rightarrow> TMDBMovie option list \<Rightarrow> world \<Rightarrow> TMDBMovie option list \<times> world" where
  "similarLoop e [] recommendations w = (recommendations, w)"
| "similarLoop e (movie # rest) recommendations w =
     (case getSimilarMovies e (parseInt e movie) 1 w of
        (similar, w') \<Rightarrow>
          (case results_of similar of
             Some rs \<Rightarrow>
               let recommendations' = recommendations @ take 5 rs
               in if length recommendations' \<ge> 25 then (recommendations', w')
                  else similarLoop e rest recommendations' w'
           | None \<Rightarrow> similarLoop e rest recommendations w'))"

text \<open>The three strategies: the accumulator \<open>recommendations\<close> when the filter starts.\<close>

definition gather :: "env \<Rightarrow> string list \<Rightarrow> world \<Rightarrow> TMDBMovie option list \<times> world" where
  "gather e watchedMovies w =
     (case getPopularMovies e 1 w of
        (popular, w1) \<Rightarrow>
          let r1 = (case results_of popular of Some rs \<Rightarrow> rs | None \<Rightarrow> []) in
          (case (if length r1 < 15
                 then (case getTrendingMovies e Week w1 of
                         (trending, w2) \<Rightarrow>
                           (case results_of trending of Some rs \<Rightarrow> (r1 @ rs, w2) | None \<Rightarrow> (r1, w2)))
                 else (r1, w1)) of
             (r2, w2) \<Rightarrow>
               if length r2 > 0 \<and> length watchedMovies > 0
               then similarLoop e (take 2 watchedMovies) r2 w2
               else (r2, w2)))"

text \<open>
  The callback of \<open>filter\<close> with its set \<open>seen\<close>: a \<open>null\<close> entry, an id already seen and
  an excluded id are dropped; an entry that is kept marks its id as seen.
\<close>

fun uniqueFilter :: "number list \<Rightarrow> number set \<Rightarrow> TMDBMovie option list \<Rightarrow> TMDBMovie list" where
  "uniqueFilter excludeIds seen [] = []"
| "uniqueFilter excludeIds seen (None # rest) = uniqueFilter excludeIds seen rest"
| "uniqueFilter excludeIds seen (Some movie # rest) =
     (if tmdb_id movie \<in> seen \<or> tmdb_id movie \<in> set excludeIds
      then uniqueFilter excludeIds seen rest
      else movie # uniqueFilter excludeIds (insert (tmdb_id movie) seen) rest)"

definition uniqueRecommendations :: "number list \<Rightarrow> TMDBMovie option list \<Rightarrow> TMDBMovie list" where
  "uniqueRecommendations excludeIds recommendations =
     take 20 (uniqueFilter excludeIds {} recommendations)"

definition excluded_ids :: "env \<Rightarrow> string list \<Rightarrow> string list \<Rightarrow> number list" where
  "excluded_ids e excludeWatchedIds excludeBlockedIds =
     map (parseInt e) (excludeWatchedIds @ excludeBlockedIds)"

text \<open>
  \<open>getRecommendations\<close>. On the fast path \<open>loadFallbackMovies\<close> is awaited outside every
  \<open>try\<close>, so an error of it would reach the caller; on the other path an empty
  \<open>uniqueRecommendations\<close> throws into the \<open>catch\<close>, which loads the fallback movies and
  returns \<open>[]\<close> should that throw.
\<close>

definition getRecommendations ::
  "env \<Rightarrow> string list \<Rightarrow> string list \<Rightarrow> string list \<Rightarrow> world \<Rightarrow> (error + TMDBMovie list) \<times> world" where
  "getRecommendations e excludeWatchedIds excludeBlockedIds watchedMovies w =
     (let excludeIds = excluded_ids e excludeWatchedIds excludeBlockedIds in
      if \<not> has_key e
      then (case loadFallbackMovies e w of
              (Inl err, w') \<Rightarrow> (Inl err, w')
            | (Inr fallbackMovies, w') \<Rightarrow>
                (Inr (filter (\<lambda>movie. tmdb_id movie \<notin> set excludeIds) fallbackMovies), w'))
      else (case gather e watchedMovies w of
              (recommendations, w') \<Rightarrow>
                let unique = uniqueRecommendations excludeIds recommendations in
                if length unique > 0 then (Inr unique, w')
                else (case loadFallbackMovies e w' of
                        (Inl fallbackError, w'') \<Rightarrow> (Inr [], w'')
                      | (Inr fallbackMovies, w'') \<Rightarrow>
                          (Inr (filter (\<lambda>movie. tmdb_id movie \<notin> set excludeIds) fallbackMovies), w''))))"

subsection \<open>Properties of attempts and of recommendations\<close>

text \<open>An attempt that fails without the timer: the promise rejects, or the response is not \<open>ok\<close>.\<close>

fun fails :: "outcome \<Rightarrow> bool" where
  "fails Rejects = True"
| "fails (Responds r) = (\<not> ok r)"


section \<open>Mixed recommendations (src/lib/recommendations.ts)\<close>

text \<open>\<open>SimpleMovie\<close>; its fields carry the prefix \<open>simple_\<close>.\<close>

record SimpleMovie =
  simple_id :: string
  simple_title :: string
  simple_year :: "number maybe"
  simple_genre :: "string maybe"
  simple_poster :: "string maybe"
  simple_rating :: number
  simple_synopsis :: "string maybe"

definition maxPerCategory :: nat where
  "maxPerCategory = 4"

text \<open>
  The \<open>for\<close> loop over one category, on the state \<open>(mixed, addedIds, added)\<close>, and the
  \<open>forEach\<close> over the categories, which starts each with \<open>added = 0\<close>.
\<close>

fun addCategory ::
  "SimpleMovie list \<Rightarrow> SimpleMovie list \<times> string set \<times> nat \<Rightarrow> SimpleMovie list \<times> string set \<times> nat" where
  "addCategory [] st = st"
| "addCategory (movie # rest) (mixed, addedIds, added) =
     (if simple_id movie \<notin> addedIds \<and> added < maxPerCategory
      then addCategory rest (mixed @ [movie], insert (simple_id movie) addedIds, added + 1)
      else addCategory rest (mixed, addedIds, added))"

fun forEachCategory ::
  "SimpleMovie list list \<Rightarrow> SimpleMovie list \<times> string set \<Rightarrow> SimpleMovie list \<times> string set" where
  "forEachCategory [] st = st"
| "forEachCategory (categoryMovies # rest) (mixed, addedIds) =
     (case addCategory categoryMovies (mixed, addedIds, 0) of
        (mixed', addedIds', added) \<Rightarrow> forEachCategory rest (mixed', addedIds'))"

text \<open>
  \<open>getMixedRecommendations\<close> on the three arrays that \<open>Promise.all\<close> resolves with. Each
  of the three fetchers catches what it throws and returns an array, so the promise does
  not reject and the \<open>catch\<close> of this function is not entered.
\<close>

definition getMixedRecommendations ::
  "SimpleMovie list \<Rightarrow> SimpleMovie list \<Rightarrow> SimpleMovie list \<Rightarrow> SimpleMovie list" where
  "getMixedRecommendations popular trending topRated =
     take 10 (fst (forEachCategory [popular, trending, topRated] ([], {})))"

section \<open>Example inputs\<close>

text \<open>Concrete devices, environments and movies at which the theorems below are instantiated.\<close>

definition browser :: device where
  "browser = \<lparr>hasWindow = True, item = None\<rparr>"

definition server :: device where
  "server = \<lparr>hasWindow = False, item = None\<rparr>"

text \<open>A clock all of whose reads return \<open>t\<close>, and a clock that advances with each read.\<close>

definition clock_at :: "string \<Rightarrow> clock" where
  "clock_at t k = t"

fun example_clock :: clock where
  "example_clock 0 = ''2024-05-01T10:00:00.000Z''"
| "example_clock (Suc 0) = ''2024-05-01T10:00:00.001Z''"
| "example_clock (Suc (Suc k)) = ''2024-05-01T10:00:00.002Z''"

definition example_env :: call_env where
  "example_env =
     \<lparr>loadedAt = clock_at ''2024-05-01T10:00:00.000Z'',
      now = ''2024-05-01T10:00:00.001Z'',
      watchedAt = ''2024-05-01T10:00:00.002Z'',
      setItemOk = True\<rparr>"

definition example_movie :: MovieData where
  "example_movie =
     \<lparr>md_id = ''550'',
      md_title = ''Fight Club'',
      md_year = Val (Fin 1999),
      md_genre = Val ''Drama'',
      md_posterUrl = Undefined,
      md_poster = Val ''/pB8BM7pdSp6B6Ih7QZ4DrQ3PmJK.jpg'',
      md_userRating = Val (Fin 0),
      md_rating = Val (Fin (42 / 10))\<rparr>"

text \<open>
  The entry that \<open>createStoredMovie\<close> makes of the example movie, a store that has it
  in \<open>myList\<close>, a store that has it in \<open>watchedList\<close>, and a browser that holds a store.
\<close>

definition example_entry :: StoredMovie where
  "example_entry = createStoredMovie (now example_env) example_movie"

definition stored_in_myList :: MovieStorage where
  "stored_in_myList =
     \<lparr>lists = \<lparr>myList = [example_entry], watchedList = [], blockedMovies = []\<rparr>,
      embeddingProfile = [], version = STORAGE_VERSION\<rparr>"

definition stored_in_watchedList :: MovieStorage where
  "stored_in_watchedList =
     \<lparr>lists = \<lparr>myList = [],
               watchedList = [example_entry\<lparr>dateWatched := Val (watchedAt example_env)\<rparr>],
               blockedMovies = []\<rparr>,
      embeddingProfile = [], version = STORAGE_VERSION\<rparr>"

definition device_with :: "MovieStorage \<Rightarrow> device" where
  "device_with s = \<lparr>hasWindow = True, item = Some (Text (json_of_MovieStorage s))\<rparr>"

text \<open>
  A store with two watched movies, the example movie second; the example movie as it is
  rated again, with another user rating; and the store after \<open>addToWatchedList\<close> of it.
\<close>

definition other_entry :: StoredMovie where
  "other_entry =
     \<lparr>movie_id = ''278'', title = ''The Shawshank Redemption'', year = Val (Fin 1994),
      genre = Val ''Drama'', poster = Undefined, rating = Val (Fin 5),
      dateAdded = ''2024-04-01T09:00:00.000Z'',
      dateWatched = Val ''2024-04-02T21:00:00.000Z''\<rparr>"

definition stored_two_watched :: MovieStorage where
  "stored_two_watched =
     \<lparr>lists = \<lparr>myList = [],
               watchedList = [other_entry, example_entry\<lparr>dateWatched := Val (watchedAt example_env)\<rparr>],
               blockedMovies = []\<rparr>,
      embeddingProfile = [], version = STORAGE_VERSION\<rparr>"

definition example_rewatch :: MovieData where
  "example_rewatch = example_movie\<lparr>md_userRating := Val (Fin 5)\<rparr>"

definition stored_rewatched :: MovieStorage where
  "stored_rewatched =
     \<lparr>lists = \<lparr>myList = [],
               watchedList = [other_entry,
                              example_entry\<lparr>rating := Val (Fin 5),
                                            dateWatched := Val (watchedAt example_env)\<rparr>],
               blockedMovies = []\<rparr>,
      embeddingProfile = [], version = STORAGE_VERSION\<rparr>"

text \<open>
  A stored text of version 1.0 that has \<open>lists.myList\<close> and \<open>lists.wantToWatch\<close>; the
  movie under the legacy name has no \<open>dateAdded\<close>.
\<close>

definition legacy_text :: stored_text where
  "legacy_text =
     Text (JObj [(''version'', JStr ''1.0''),
                 (''lists'',
                  JObj [(''myList'',
                         JArr [JObj [(''id'', JStr ''550''), (''title'', JStr ''Fight Club''),
                                     (''rating'', JNum 4),
                                     (''dateAdded'', JStr ''2023-01-01T00:00:00.000Z'')]]),
                        (''wantToWatch'',
                         JArr [JObj [(''id'', JStr ''278''),
                                     (''title'', JStr ''The Shawshank Redemption''),
                                     (''rating'', JNum 5)]])])])"

text \<open>The store that a load migrates from this text when its one clock read returns \<open>t\<close>.\<close>

definition legacy_loaded :: "string \<Rightarrow> MovieStorage" where
  "legacy_loaded t =
     \<lparr>lists =
        \<lparr>myList = [\<lparr>movie_id = ''278'', title = ''The Shawshank Redemption'',
                    year = Undefined, genre = Undefined, poster = Undefined,
                    rating = Val (Fin 5), dateAdded = t, dateWatched = Undefined\<rparr>],
         watchedList = [], blockedMovies = []\<rparr>,
      embeddingProfile = [], version = STORAGE_VERSION\<rparr>"

text \<open>
  Legacy data with every list under both of its names; the two movies under
  \<open>wantToWatch\<close> and the movie under \<open>myList\<close> have no \<open>dateAdded\<close>.
\<close>

definition legacy_a :: LegacyMovie where
  "legacy_a = \<lparr>lm_id = ''550'', lm_title = ''Fight Club'', lm_year = Val (Fin 1999),
               lm_genre = Val ''Drama'', lm_poster = Undefined, lm_rating = Val (Fin 4),
               lm_dateAdded = Val ''2023-01-01T00:00:00.000Z''\<rparr>"

definition legacy_b :: LegacyMovie where
  "legacy_b = \<lparr>lm_id = ''278'', lm_title = ''The Shawshank Redemption'', lm_year = Val (Fin 1994),
               lm_genre = Val ''Drama'', lm_poster = Undefined, lm_rating = Val (Fin 5),
               lm_dateAdded = Undefined\<rparr>"

definition legacy_c :: LegacyMovie where
  "legacy_c = \<lparr>lm_id = ''680'', lm_title = ''Pulp Fiction'', lm_year = Val (Fin 1994),
               lm_genre = Val ''Crime'', lm_poster = Undefined, lm_rating = Undefined,
               lm_dateAdded = Undefined\<rparr>"

definition legacy_both_lists :: LegacyLists where
  "legacy_both_lists =
     \<lparr>old_myList = Array [Some legacy_c], old_watchedList = Array [Some legacy_a],
      old_blockedMovies = Some [''1''],
      old_wantToWatch = Array [Some legacy_b, Some legacy_c], old_watched = Array [],
      old_blocked = Some [''2'', ''3'']\<rparr>"

definition legacy_both :: OldData where
  "legacy_both = \<lparr>old_lists = Val legacy_both_lists\<rparr>"

text \<open>
  Legacy data with both names of the first list, where the list under the current name
  holds \<open>null\<close>, and the parsed value of a stored text of version 1.0 that holds
  this data.
\<close>

definition legacy_null_lists :: LegacyLists where
  "legacy_null_lists =
     \<lparr>old_myList = Array [None], old_watchedList = Falsy, old_blockedMovies = None,
      old_wantToWatch = Array [Some legacy_a], old_watched = Falsy, old_blocked = None\<rparr>"

definition legacy_null :: OldData where
  "legacy_null = \<lparr>old_lists = Val legacy_null_lists\<rparr>"

definition legacy_null_json :: json where
  "legacy_null_json =
     JObj [(''version'', JStr ''1.0''),
           (''lists'',
            JObj [(''myList'', JArr [JNull]),
                  (''wantToWatch'',
                   JArr [JObj [(''id'', JStr ''550''), (''title'', JStr ''Fight Club''),
                               (''year'', JNum 1999), (''genre'', JStr ''Drama''),
                               (''rating'', JNum 4),
                               (''dateAdded'', JStr ''2023-01-01T00:00:00.000Z'')]])])]"

text \<open>
  Worlds, environments and responses for the movie source. \<open>parseInt_example\<close> is
  \<open>parseInt\<close> at the three strings that the examples pass to it (it maps every other
  string to \<open>NaN\<close>). \<open>movie_numbered\<close> is a movie with a given id.
\<close>

definition world0 :: world where
  "world0 = \<lparr>cachedFallbackMovies = None, log = []\<rparr>"

fun parseInt_example :: "string \<Rightarrow> number" where
  "parseInt_example s =
     (if s = ''1'' then Fin 1 else if s = ''278'' then Fin 278 else if s = ''550'' then Fin 550 else NaN)"

definition env_slow :: env where
  "env_slow = \<lparr>TMDB_API_KEY = Some ''key'', parseInt = parseInt_example,
                net = (\<lambda>k u. \<lparr>slow = True, outcome = Rejects\<rparr>)\<rparr>"

definition env_down :: env where
  "env_down = \<lparr>TMDB_API_KEY = Some ''key'', parseInt = parseInt_example,
                net = (\<lambda>k u. \<lparr>slow = False, outcome = Rejects\<rparr>)\<rparr>"

definition movie_numbered :: "'i \<Rightarrow> 'i tmdb_movie" where
  "movie_numbered i =
     \<lparr>tmdb_id = i, tmdb_title = ''Example'', overview = ''An example.'', poster_path = None,
      backdrop_path = None, release_date = ''2020-01-01'', vote_average = Fin 7,
      vote_count = Fin 100, genre_ids = [Fin 18]\<rparr>"

definition env_offline :: env where
  "env_offline = \<lparr>TMDB_API_KEY = None, parseInt = parseInt_example,
                   net = (\<lambda>k u. \<lparr>slow = False, outcome = Rejects\<rparr>)\<rparr>"

definition bundled_response :: response where
  "bundled_response =
     \<lparr>ok = True,
      body = FallbackData [Some (movie_numbered (IdString ''550'')), Some (movie_numbered (IdNumber (Fin 278)))]\<rparr>"

definition env_bundled :: env where
  "env_bundled = \<lparr>TMDB_API_KEY = None, parseInt = parseInt_example,
                   net = (\<lambda>k u. \<lparr>slow = False, outcome = Responds bundled_response\<rparr>)\<rparr>"

fun net_provider_down :: "nat \<Rightarrow> url \<Rightarrow> attempt" where
  "net_provider_down k FallbackUrl = \<lparr>slow = False, outcome = Responds bundled_response\<rparr>"
| "net_provider_down k u = \<lparr>slow = False, outcome = Responds \<lparr>ok = False, body = OtherJson\<rparr>\<rparr>"

definition env_provider_down :: env where
  "env_provider_down =
     \<lparr>TMDB_API_KEY = Some ''key'', parseInt = parseInt_example, net = net_provider_down\<rparr>"

text \<open>
  The provider answers every request with a response that is not \<open>ok\<close>, and the bundled
  file is served with an empty array \<open>popular\<close>.
\<close>

fun net_empty_bundle :: "nat \<Rightarrow> url \<Rightarrow> attempt" where
  "net_empty_bundle k FallbackUrl =
     \<lparr>slow = False, outcome = Responds \<lparr>ok = True, body = FallbackData []\<rparr>\<rparr>"
| "net_empty_bundle k u = \<lparr>slow = False, outcome = Responds \<lparr>ok = False, body = OtherJson\<rparr>\<rparr>"

definition env_empty_bundle :: env where
  "env_empty_bundle =
     \<lparr>TMDB_API_KEY = Some ''key'', parseInt = parseInt_example, net = net_empty_bundle\<rparr>"

text \<open>
  The events of three failed attempts to get the popular movies and three to get the
  trending movies, with the delay between the attempts.
\<close>

definition failed_provider_calls :: "event list" where
  "failed_provider_calls =
     [Fetch (PopularUrl 1), Delay 500, Fetch (PopularUrl 1), Delay 500, Fetch (PopularUrl 1),
      Fetch (TrendingUrl Week), Delay 500, Fetch (TrendingUrl Week), Delay 500,
      Fetch (TrendingUrl Week)]"







section \<open>Verification of the persisted list store\<close>

subsection \<open>JSON round trip\<close>

lemma skip_number_property [simp]:
  "k' \<noteq> k \<Longrightarrow> map_of (number_property k v @ rest) k' = map_of rest k'"
  by (cases v) auto

lemma skip_string_property [simp]:
  "k' \<noteq> k \<Longrightarrow> map_of (string_property k v @ rest) k' = map_of rest k'"
  by (cases v) auto

lemma skip_number_property_last [simp]:
  "k' \<noteq> k \<Longrightarrow> map_of (number_property k v) k' = None"
  by (cases v) auto

lemma skip_string_property_last [simp]:
  "k' \<noteq> k \<Longrightarrow> map_of (string_property k v) k' = None"
  by (cases v) auto

lemma read_number_property [simp]:
  "map_of rest k = None \<Longrightarrow>
   read_number_maybe (map_of (number_property k v @ rest) k) = Some (reparse_number v)"
  by (cases v rule: reparse_number.cases) auto

lemma read_string_property [simp]:
  "map_of rest k = None \<Longrightarrow>
   read_string_maybe (map_of (string_property k v @ rest) k) = Some v"
  by (cases v) auto

lemma read_string_property_last [simp]:
  "read_string_maybe (map_of (string_property k v) k) = Some v"
  by (cases v) auto

lemma StoredMovie_roundtrip:
  "StoredMovie_of_json (json_of_StoredMovie m) = Some (reparse_StoredMovie m)"
  unfolding StoredMovie_of_json_def json_of_StoredMovie_def reparse_StoredMovie_def
  by (simp del: map_of_append)

lemma those_map_Some:
  "(\<And>x. f (g x) = Some (h x)) \<Longrightarrow> those (map (f \<circ> g) xs) = Some (map h xs)"
  by (induction xs) auto

lemma MovieStorage_roundtrip:
  "embeddingProfile s = [] \<Longrightarrow>
   MovieStorage_of_json (json_of_MovieStorage s) = Some (reparse_MovieStorage s)"
  unfolding MovieStorage_of_json_def json_of_MovieStorage_def reparse_MovieStorage_def
  by (simp add: those_map_Some [where h = reparse_StoredMovie] those_map_Some [where h = "\<lambda>x. x"]
      StoredMovie_roundtrip)

lemma reparse_number_idem [simp]: "reparse_number (reparse_number v) = reparse_number v"
  by (cases v rule: reparse_number.cases) simp_all

lemma reparse_StoredMovie_idem [simp]:
  "reparse_StoredMovie (reparse_StoredMovie m) = reparse_StoredMovie m"
  by (simp add: reparse_StoredMovie_def)

lemma reparse_MovieStorage_idem:
  "reparse_MovieStorage (reparse_MovieStorage s) = reparse_MovieStorage s"
  by (simp add: reparse_MovieStorage_def comp_def)

lemma movie_id_reparse [simp]: "movie_id (reparse_StoredMovie m) = movie_id m"
  by (simp add: reparse_StoredMovie_def)

lemma store_shape_reparse [simp]: "store_shape (reparse_MovieStorage s) = store_shape s"
  by (simp add: store_shape_def reparse_MovieStorage_def)

lemma store_invariant_reparse:
  "store_invariant s \<Longrightarrow> store_invariant (reparse_MovieStorage s)"
  by (simp add: store_invariant_def store_shape_def disjoint_lists_def reparse_MovieStorage_def comp_def)

lemma reparse_default [simp]: "reparse_MovieStorage getDefaultStorage = getDefaultStorage"
  by (simp add: reparse_MovieStorage_def getDefaultStorage_def)

lemma store_shape_default [simp]: "store_shape getDefaultStorage"
  by (simp add: store_shape_def getDefaultStorage_def)

lemma store_invariant_default: "store_invariant getDefaultStorage"
  by (simp add: store_invariant_def disjoint_lists_def) (simp add: getDefaultStorage_def)

subsection \<open>Loading and saving on a device that holds a saved store\<close>

lemma load_saved:
  assumes "hasWindow dev" "item dev = Some (Text (json_of_MovieStorage s0))" "store_shape s0"
  shows "loadMovieData t dev = Some (reparse_MovieStorage s0)"
proof -
  have v: "field (json_of_MovieStorage s0) ''version'' = Some (JStr STORAGE_VERSION)"
    using assms(3) by (simp add: json_of_MovieStorage_def store_shape_def)
  have n: "json_of_MovieStorage s0 \<noteq> JNull"
    by (simp add: json_of_MovieStorage_def)
  show ?thesis
    using assms v n MovieStorage_roundtrip [of s0]
    by (simp add: loadMovieData_def store_shape_def)
qed

lemma load_default:
  "\<not> hasWindow dev \<or> item dev = None \<Longrightarrow> loadMovieData t dev = Some getDefaultStorage"
  by (auto simp: loadMovieData_def)

lemma load_holds:
  assumes "device_holds P dev" "P getDefaultStorage"
    and "\<And>s. P s \<Longrightarrow> store_shape s \<and> P (reparse_MovieStorage s)"
  shows "\<exists>s. loadMovieData t dev = Some s \<and> P s"
proof (cases "hasWindow dev \<and> item dev \<noteq> None")
  case False
  then show ?thesis
    using assms(2) load_default [of dev t] by auto
next
  case True
  with assms(1) obtain s0 where s0: "item dev = Some (Text (json_of_MovieStorage s0))" "P s0"
    by (auto simp: device_holds_def)
  with True assms(3) [OF s0(2)] load_saved [of dev s0 t] show ?thesis
    by simp
qed

lemma load_independent_of_clock:
  assumes "device_holds store_shape dev"
  shows "loadMovieData t dev = loadMovieData t' dev"
proof (cases "hasWindow dev \<and> item dev \<noteq> None")
  case False
  then show ?thesis
    using load_default [of dev] by auto
next
  case True
  with assms obtain s0 where s0: "item dev = Some (Text (json_of_MovieStorage s0))" "store_shape s0"
    by (auto simp: device_holds_def)
  with True show ?thesis
    by (simp add: load_saved)
qed

lemma save_holds:
  "device_holds P dev \<Longrightarrow> P s \<Longrightarrow>
   device_holds P (snd (saveMovieData accepted (json_of_MovieStorage s) dev))"
  by (auto simp: saveMovieData_def device_holds_def)

lemma load_invariant:
  assumes "device_holds store_invariant dev"
  shows "\<exists>s. loadMovieData t dev = Some s \<and> store_invariant s"
  using assms
  by (rule load_holds) (auto simp: store_invariant_default store_invariant_reparse, simp add: store_invariant_def)

lemma load_shape:
  assumes "device_holds store_shape dev"
  shows "\<exists>s. loadMovieData t dev = Some s \<and> store_shape s"
  using assms by (rule load_holds) auto


subsection \<open>Lists\<close>

lemma findIndex_None: "findIndex p xs = None \<longleftrightarrow> (\<forall>x\<in>set xs. \<not> p x)"
  by (induction xs) auto

lemma findIndex_Some:
  "findIndex p xs = Some i \<Longrightarrow> i < length xs \<and> p (xs ! i) \<and> (\<forall>j<i. \<not> p (xs ! j))"
proof (induction xs arbitrary: i)
  case Nil
  then show ?case by simp
next
  case (Cons x xs)
  show ?case
  proof (cases "p x")
    case True
    with Cons.prems show ?thesis by simp
  next
    case False
    with Cons.prems obtain k where k: "findIndex p xs = Some k" "i = Suc k"
      by auto
    from Cons.IH [OF k(1)] False k(2) show ?thesis
      by (auto simp: less_Suc_eq_0_disj)
  qed
qed

lemma map_update_same: "i < length xs \<Longrightarrow> f m = f (xs ! i) \<Longrightarrow> map f (xs[i := m]) = map f xs"
  by (simp add: map_update list_update_same_conv)

lemma set_splice: "set (take i xs @ drop (Suc i) xs) \<subseteq> set xs"
  by (auto dest: in_set_takeD in_set_dropD)

lemma splice_distinct:
  assumes "distinct ys" "i < length ys"
  shows "distinct (take i ys @ drop (Suc i) ys) \<and> ys ! i \<notin> set (take i ys @ drop (Suc i) ys)"
proof -
  have "ys = take i ys @ ys ! i # drop (Suc i) ys"
    using assms(2) by (rule id_take_nth_drop)
  then have "distinct (take i ys @ ys ! i # drop (Suc i) ys)"
    using assms(1) by simp
  then show ?thesis by auto
qed

lemma splice_map: "map f (take i xs @ drop (Suc i) xs) = take i (map f xs) @ drop (Suc i) (map f xs)"
  by (simp add: take_map drop_map)

subsection \<open>The invariant of the classifying calls\<close>

lemma invariant_push:
  assumes "store_invariant s" "movie_id m \<notin> movie_id ` set (watchedList (lists s))"
  shows "store_invariant (s\<lparr>lists := (lists s)\<lparr>myList := myList (lists s) @ [m]\<rparr>\<rparr>)"
  using assms by (auto simp: store_invariant_def store_shape_def disjoint_lists_def)

lemma invariant_watched:
  assumes "store_invariant s"
  shows "store_invariant (s\<lparr>lists := (lists s)
           \<lparr>myList := filter (\<lambda>m. movie_id m \<noteq> movie_id mv) (myList (lists s)),
            watchedList := (case findIndex (\<lambda>m. movie_id m = movie_id mv) (watchedList (lists s)) of
                              Some existingIndex \<Rightarrow> (watchedList (lists s))[existingIndex := mv]
                            | None \<Rightarrow> mv # watchedList (lists s))\<rparr>\<rparr>)"
proof (cases "findIndex (\<lambda>m. movie_id m = movie_id mv) (watchedList (lists s))")
  case None
  then have "movie_id mv \<notin> movie_id ` set (watchedList (lists s))"
    by (auto simp: findIndex_None)
  with assms None show ?thesis
    by (auto simp: store_invariant_def store_shape_def disjoint_lists_def)
next
  case (Some i)
  from findIndex_Some [OF Some]
  have i: "i < length (watchedList (lists s))" "movie_id mv = movie_id (watchedList (lists s) ! i)"
    by auto
  have "map movie_id ((watchedList (lists s))[i := mv]) = map movie_id (watchedList (lists s))"
    using i by (rule map_update_same)
  with assms Some show ?thesis
    by (auto simp: store_invariant_def store_shape_def disjoint_lists_def)
qed

lemma invariant_remove:
  assumes "store_invariant s"
  shows "store_invariant
           (if lt = MyList
            then s\<lparr>lists := (lists s)\<lparr>myList := filter (\<lambda>m. movie_id m \<noteq> movieId) (myList (lists s))\<rparr>\<rparr>
            else s\<lparr>lists := (lists s)\<lparr>watchedList := filter (\<lambda>m. movie_id m \<noteq> movieId) (watchedList (lists s))\<rparr>\<rparr>)"
  using assms by (auto simp: store_invariant_def store_shape_def disjoint_lists_def distinct_map_filter)

lemma invariant_move:
  assumes "store_invariant s" "findIndex (\<lambda>m. movie_id m = movieId) (watchedList (lists s)) = Some i"
  shows "store_invariant (s\<lparr>lists := (lists s)
           \<lparr>myList := myList (lists s) @ [(watchedList (lists s) ! i)\<lparr>dateAdded := t\<rparr>],
            watchedList := take i (watchedList (lists s)) @ drop (Suc i) (watchedList (lists s))\<rparr>\<rparr>)"
proof -
  let ?w = "watchedList (lists s)"
  from findIndex_Some [OF assms(2)] have i: "i < length ?w" by simp
  from assms(1) have d: "distinct (map movie_id ?w)"
    by (simp add: store_invariant_def)
  have li: "i < length (map movie_id ?w)" using i by simp
  have nth: "map movie_id ?w ! i = movie_id (?w ! i)" using i by simp
  from splice_distinct [OF d li]
  have sp: "distinct (map movie_id (take i ?w @ drop (Suc i) ?w))"
           "movie_id (?w ! i) \<notin> set (map movie_id (take i ?w @ drop (Suc i) ?w))"
    unfolding splice_map nth by blast+
  have sub: "set (map movie_id (take i ?w @ drop (Suc i) ?w)) \<subseteq> set (map movie_id ?w)"
    using set_splice [of i ?w] by auto
  from assms(1) have dj: "set (map movie_id (myList (lists s))) \<inter> set (map movie_id ?w) = {}"
    by (simp add: store_invariant_def disjoint_lists_def)
  have my: "set (map movie_id (myList (lists s) @ [(?w ! i)\<lparr>dateAdded := t\<rparr>]))
              = insert (movie_id (?w ! i)) (set (map movie_id (myList (lists s))))"
    by simp
  have "set (map movie_id (myList (lists s) @ [(?w ! i)\<lparr>dateAdded := t\<rparr>]))
          \<inter> set (map movie_id (take i ?w @ drop (Suc i) ?w)) = {}"
    unfolding my using sp(2) sub dj by blast
  with sp(1) assms(1) show ?thesis
    by (simp add: store_invariant_def store_shape_def disjoint_lists_def)
qed

lemma invariant_block:
  assumes "store_invariant s"
  shows "store_invariant (s\<lparr>lists := (lists s)\<lparr>blockedMovies := bs\<rparr>\<rparr>)"
  using assms by (simp add: store_invariant_def store_shape_def disjoint_lists_def)

lemma addToMyList_invariant:
  assumes "device_holds store_invariant dev"
  shows "\<exists>s' dev'. addToMyList e md dev = Some (s', dev') \<and> store_invariant s'
           \<and> device_holds store_invariant dev'"
proof -
  from load_invariant [OF assms] obtain s where
    s: "loadMovieData (loadedAt e) dev = Some s" "store_invariant s" by blast
  show ?thesis
    using s assms
    by (auto simp: addToMyList_def Let_def list_ex_iff intro!: invariant_push save_holds)
qed

lemma addToWantToWatchList_invariant:
  assumes "device_holds store_invariant dev"
  shows "\<exists>s' dev'. addToWantToWatchList e md dev = Some (s', dev') \<and> store_invariant s'
           \<and> device_holds store_invariant dev'"
proof -
  from load_invariant [OF assms] obtain s where
    s: "loadMovieData (loadedAt e) dev = Some s" "store_invariant s" by blast
  show ?thesis
    using s assms
    by (auto simp: addToWantToWatchList_def Let_def list_ex_iff intro!: invariant_push save_holds)
qed

lemma addToWatchedList_invariant:
  assumes "device_holds store_invariant dev"
  shows "\<exists>s' dev'. addToWatchedList e md dev = Some (s', dev') \<and> store_invariant s'
           \<and> device_holds store_invariant dev'"
proof -
  from load_invariant [OF assms] obtain s where
    s: "loadMovieData (loadedAt e) dev = Some s" "store_invariant s" by blast
  show ?thesis
    using s assms
      invariant_watched [OF s(2), of "(createStoredMovie (now e) md)\<lparr>dateWatched := Val (watchedAt e)\<rparr>"]
    by (simp add: addToWatchedList_def Let_def save_holds)
qed

lemma removeFromList_invariant:
  assumes "device_holds store_invariant dev"
  shows "\<exists>s' dev'. removeFromList e movieId lt dev = Some (s', dev') \<and> store_invariant s'
           \<and> device_holds store_invariant dev'"
proof -
  from load_invariant [OF assms] obtain s where
    s: "loadMovieData (loadedAt e) dev = Some s" "store_invariant s" by blast
  show ?thesis
    using s assms invariant_remove [OF s(2)]
    by (simp add: removeFromList_def Let_def save_holds)
qed

lemma moveToMyList_invariant:
  assumes "device_holds store_invariant dev"
  shows "\<exists>s' dev'. moveToMyList e movieId dev = Some (s', dev') \<and> store_invariant s'
           \<and> device_holds store_invariant dev'"
proof -
  from load_invariant [OF assms] obtain s where
    s: "loadMovieData (loadedAt e) dev = Some s" "store_invariant s" by blast
  show ?thesis
    using s assms
    by (auto simp: moveToMyList_def Let_def save_holds invariant_move split: option.splits)
qed

lemma moveToWantToWatchList_invariant:
  assumes "device_holds store_invariant dev"
  shows "\<exists>s' dev'. moveToWantToWatchList e movieId dev = Some (s', dev') \<and> store_invariant s'
           \<and> device_holds store_invariant dev'"
proof -
  from load_invariant [OF assms] obtain s where
    s: "loadMovieData (loadedAt e) dev = Some s" "store_invariant s" by blast
  show ?thesis
    using s assms
    by (auto simp: moveToWantToWatchList_def Let_def save_holds invariant_move split: option.splits)
qed

lemma blockMovie_invariant:
  assumes "device_holds store_invariant dev"
  shows "\<exists>s' dev'. blockMovie e movieId dev = Some (s', dev') \<and> store_invariant s'
           \<and> device_holds store_invariant dev'"
proof -
  from load_invariant [OF assms] obtain s where
    s: "loadMovieData (loadedAt e) dev = Some s" "store_invariant s" by blast
  show ?thesis
    using s assms
    by (auto simp: blockMovie_def Let_def save_holds invariant_block)
qed

lemma clearAllData_holds: "device_holds P (clearAllData dev) = (hasWindow dev \<or> device_holds P dev)"
  by (simp add: clearAllData_def device_holds_def)

lemma perform_invariant:
  assumes "device_holds store_invariant dev" "classifies c"
  shows "\<exists>dev'. perform e c dev = Some dev' \<and> device_holds store_invariant dev'"
proof (cases c)
  case (AddToMyList md)
  with addToMyList_invariant [OF assms(1), of e md] show ?thesis by auto
next
  case (AddToWantToWatchList md)
  with addToWantToWatchList_invariant [OF assms(1), of e md] show ?thesis by auto
next
  case (AddToWatchedList md)
  with addToWatchedList_invariant [OF assms(1), of e md] show ?thesis by auto
next
  case (RemoveFromList i lt)
  with removeFromList_invariant [OF assms(1), of e i lt] show ?thesis by auto
next
  case (MoveToWantToWatchList i)
  with moveToWantToWatchList_invariant [OF assms(1), of e i] show ?thesis by auto
next
  case (MoveToMyList i)
  with moveToMyList_invariant [OF assms(1), of e i] show ?thesis by auto
next
  case (ReorderMyList xs)
  with assms(2) show ?thesis by simp
next
  case (BlockMovie i)
  with blockMovie_invariant [OF assms(1), of e i] show ?thesis by auto
next
  case ClearAllData
  with assms(1) show ?thesis by (simp add: clearAllData_holds)
qed

lemma run_invariant:
  assumes "device_holds store_invariant dev" "list_all (\<lambda>ec. classifies (snd ec)) cs"
  shows "\<exists>dev'. run cs dev = Some dev' \<and> device_holds store_invariant dev'"
  using assms
proof (induction cs arbitrary: dev)
  case Nil
  then show ?case by simp
next
  case (Cons ec cs)
  obtain e c where ec: "ec = (e, c)" by (cases ec)
  with Cons.prems have "classifies c" by simp
  from perform_invariant [OF Cons.prems(1) this, of e]
  obtain dev1 where d1: "perform e c dev = Some dev1" "device_holds store_invariant dev1"
    by blast
  from Cons.IH [OF d1(2)] Cons.prems(2) obtain dev' where
    "run cs dev1 = Some dev'" "device_holds store_invariant dev'"
    by auto
  with d1(1) ec show ?case by simp
qed

subsection \<open>C1: the two lists stay disjoint\<close>

text \<open>
  C1. Starting with nothing stored (\<open>loadMovieData\<close> then returns the all-empty default
  store), after any finite sequence of calls to \<open>addToMyList\<close>, \<open>addToWantToWatchList\<close>,
  \<open>addToWatchedList\<close>, \<open>removeFromList\<close> and \<open>moveToMyList\<close> (and also
  \<open>moveToWantToWatchList\<close>, \<open>blockMovie\<close> and \<open>clearAllData\<close>), with or without a window
  and whether or not the writes succeed, every call returns, and no movie id is in both
  \<open>myList\<close> and \<open>watchedList\<close>: neither in the store that is loaded afterwards nor in
  the store that a further call of the five functions returns.
\<close>

theorem lists_stay_disjoint:
  assumes "item dev0 = None" and "list_all (\<lambda>ec. classifies (snd ec)) cs"
  shows "\<exists>dev. run cs dev0 = Some dev
           \<and> (\<exists>s. loadMovieData t dev = Some s \<and> disjoint_lists s)
           \<and> (\<exists>s d. addToMyList e movieData dev = Some (s, d) \<and> disjoint_lists s)
           \<and> (\<exists>s d. addToWantToWatchList e movieData dev = Some (s, d) \<and> disjoint_lists s)
           \<and> (\<exists>s d. addToWatchedList e movieData dev = Some (s, d) \<and> disjoint_lists s)
           \<and> (\<exists>s d. removeFromList e movieId lt dev = Some (s, d) \<and> disjoint_lists s)
           \<and> (\<exists>s d. moveToMyList e movieId dev = Some (s, d) \<and> disjoint_lists s)"
proof -
  have "device_holds store_invariant dev0"
    using assms(1) by (simp add: device_holds_def)
  from run_invariant [OF this assms(2)] obtain dev where
    dev: "run cs dev0 = Some dev" "device_holds store_invariant dev"
    by blast
  have inv: "\<And>s. store_invariant s \<Longrightarrow> disjoint_lists s"
    by (simp add: store_invariant_def)
  have 1: "\<exists>s. loadMovieData t dev = Some s \<and> disjoint_lists s"
    using load_invariant [OF dev(2), of t] inv by blast
  have 2: "\<exists>s d. addToMyList e movieData dev = Some (s, d) \<and> disjoint_lists s"
    using addToMyList_invariant [OF dev(2), of e movieData] inv by blast
  have 3: "\<exists>s d. addToWantToWatchList e movieData dev = Some (s, d) \<and> disjoint_lists s"
    using addToWantToWatchList_invariant [OF dev(2), of e movieData] inv by blast
  have 4: "\<exists>s d. addToWatchedList e movieData dev = Some (s, d) \<and> disjoint_lists s"
    using addToWatchedList_invariant [OF dev(2), of e movieData] inv by blast
  have 5: "\<exists>s d. removeFromList e movieId lt dev = Some (s, d) \<and> disjoint_lists s"
    using removeFromList_invariant [OF dev(2), of e movieId lt] inv by blast
  have 6: "\<exists>s d. moveToMyList e movieId dev = Some (s, d) \<and> disjoint_lists s"
    using moveToMyList_invariant [OF dev(2), of e movieId] inv by blast
  from dev(1) 1 2 3 4 5 6 show ?thesis by blast
qed

text \<open>Three calls on a browser with nothing stored: the movie is liked, rated, and moved back.\<close>

theorem lists_stay_disjoint_witness:
  "\<exists>dev. run [(example_env, AddToMyList example_movie),
              (example_env, AddToWatchedList example_movie),
              (example_env, MoveToMyList ''550'')] browser = Some dev
     \<and> (\<exists>s. loadMovieData (clock_at ''2024-05-01T10:00:00.003Z'') dev = Some s \<and> disjoint_lists s)
     \<and> (\<exists>s d. addToMyList example_env example_movie dev = Some (s, d) \<and> disjoint_lists s)
     \<and> (\<exists>s d. addToWantToWatchList example_env example_movie dev = Some (s, d) \<and> disjoint_lists s)
     \<and> (\<exists>s d. addToWatchedList example_env example_movie dev = Some (s, d) \<and> disjoint_lists s)
     \<and> (\<exists>s d. removeFromList example_env ''550'' WatchedList dev = Some (s, d) \<and> disjoint_lists s)
     \<and> (\<exists>s d. moveToMyList example_env ''550'' dev = Some (s, d) \<and> disjoint_lists s)"
  using lists_stay_disjoint [of browser
      "[(example_env, AddToMyList example_movie),
        (example_env, AddToWatchedList example_movie),
        (example_env, MoveToMyList ''550'')]"
      "clock_at ''2024-05-01T10:00:00.003Z''" example_env example_movie "''550''" WatchedList]
  by (simp add: browser_def)

subsection \<open>C6: what the two add functions do\<close>

lemma list_ex_id:
  "list_ex (\<lambda>m. movie_id m = i) xs \<longleftrightarrow> i \<in> set (map movie_id xs)"
  by (auto simp: list_ex_iff)

lemma reparse_example_entry: "reparse_StoredMovie example_entry = example_entry"
  by (simp add: reparse_StoredMovie_def example_entry_def createStoredMovie_def example_movie_def
      or_number_def)

lemma load_stored_in_myList:
  "loadMovieData t (device_with stored_in_myList) = Some stored_in_myList"
  using load_saved [of "device_with stored_in_myList" stored_in_myList t]
  by (simp add: device_with_def store_shape_def stored_in_myList_def reparse_MovieStorage_def
      reparse_example_entry)

lemma load_stored_two_watched:
  "loadMovieData t (device_with stored_two_watched) = Some stored_two_watched"
  using load_saved [of "device_with stored_two_watched" stored_two_watched t]
  by (simp add: device_with_def store_shape_def stored_two_watched_def reparse_MovieStorage_def
      reparse_example_entry)
     (simp add: reparse_StoredMovie_def other_entry_def example_entry_def createStoredMovie_def
      example_movie_def or_number_def)

text \<open>
  C6. For every device whose store \<open>loadMovieData\<close> reads and every movieData:
  \<open>addToMyList\<close> appends the new Stored Movie to \<open>myList\<close> and saves if the id is in
  neither \<open>myList\<close> nor \<open>watchedList\<close>, and otherwise returns the store as loaded and
  saves nothing. \<open>addToWatchedList\<close> first removes the entries of that id from \<open>myList\<close>,
  stamps \<open>dateWatched\<close> on the new entry, and saves; it inserts the new entry, at the
  front of \<open>watchedList\<close>, if the id is in neither the \<open>myList\<close> that the removal left nor
  \<open>watchedList\<close>, and otherwise inserts nothing: it overwrites, in place, the first
  entry of \<open>watchedList\<close> that has the id.
\<close>

theorem addToList_behaviour:
  assumes "loadMovieData (loadedAt e) dev = Some storage"
  shows "addToMyList e movieData dev =
           (if md_id movieData \<in> set (map movie_id (myList (lists storage)))
                 \<union> set (map movie_id (watchedList (lists storage)))
            then Some (storage, dev)
            else Some (storage\<lparr>lists := (lists storage)
                          \<lparr>myList := myList (lists storage) @ [createStoredMovie (now e) movieData]\<rparr>\<rparr>,
                       snd (saveMovieData (setItemOk e)
                         (json_of_MovieStorage (storage\<lparr>lists := (lists storage)
                            \<lparr>myList := myList (lists storage) @ [createStoredMovie (now e) movieData]\<rparr>\<rparr>))
                         dev)))
       \<and> (\<exists>myList' watched' storage'.
             myList' = filter (\<lambda>m. movie_id m \<noteq> md_id movieData) (myList (lists storage))
           \<and> storage' = storage\<lparr>lists := (lists storage)
                          \<lparr>myList := myList', watchedList := watched'\<rparr>\<rparr>
           \<and> addToWatchedList e movieData dev
               = Some (storage', snd (saveMovieData (setItemOk e) (json_of_MovieStorage storage') dev))
           \<and> (if md_id movieData \<in> set (map movie_id myList')
                     \<union> set (map movie_id (watchedList (lists storage)))
               then \<exists>i < length (watchedList (lists storage)).
                      movie_id (watchedList (lists storage) ! i) = md_id movieData
                    \<and> (\<forall>j < i. movie_id (watchedList (lists storage) ! j) \<noteq> md_id movieData)
                    \<and> watched' = (watchedList (lists storage))
                        [i := (createStoredMovie (now e) movieData)\<lparr>dateWatched := Val (watchedAt e)\<rparr>]
                    \<and> length watched' = length (watchedList (lists storage))
               else watched' = (createStoredMovie (now e) movieData)\<lparr>dateWatched := Val (watchedAt e)\<rparr>
                                # watchedList (lists storage)))"
proof -
  let ?w = "watchedList (lists storage)"
  let ?p = "\<lambda>m. movie_id m = md_id movieData"
  have id: "movie_id (createStoredMovie (now e) movieData) = md_id movieData"
    by (simp add: createStoredMovie_def)
  have f: "md_id movieData \<notin> set (map movie_id
             (filter (\<lambda>m. movie_id m \<noteq> md_id movieData) (myList (lists storage))))"
    by auto
  have my: "addToMyList e movieData dev =
           (if md_id movieData \<in> set (map movie_id (myList (lists storage)))
                 \<union> set (map movie_id ?w)
            then Some (storage, dev)
            else Some (storage\<lparr>lists := (lists storage)
                          \<lparr>myList := myList (lists storage) @ [createStoredMovie (now e) movieData]\<rparr>\<rparr>,
                       snd (saveMovieData (setItemOk e)
                         (json_of_MovieStorage (storage\<lparr>lists := (lists storage)
                            \<lparr>myList := myList (lists storage) @ [createStoredMovie (now e) movieData]\<rparr>\<rparr>))
                         dev)))"
    using assms by (simp add: addToMyList_def Let_def id list_ex_id)
  have wa: "?thesis" if "findIndex ?p ?w = None"
  proof -
    from that have "md_id movieData \<notin> set (map movie_id ?w)"
      by (auto simp: findIndex_None)
    with that assms my f show ?thesis
      by (simp add: addToWatchedList_def Let_def id)
  qed
  have wb: "?thesis" if "findIndex ?p ?w = Some i" for i
  proof -
    let ?new = "(createStoredMovie (now e) movieData)\<lparr>dateWatched := Val (watchedAt e)\<rparr>"
    let ?m = "filter (\<lambda>m. movie_id m \<noteq> md_id movieData) (myList (lists storage))"
    let ?s = "storage\<lparr>lists := (lists storage)\<lparr>myList := ?m, watchedList := ?w[i := ?new]\<rparr>\<rparr>"
    from findIndex_Some [OF that] have i: "i < length ?w" "movie_id (?w ! i) = md_id movieData"
      "\<forall>j < i. movie_id (?w ! j) \<noteq> md_id movieData"
      by auto
    then have mem: "md_id movieData \<in> set (map movie_id ?w)"
      by (metis length_map nth_map nth_mem)
    have w: "addToWatchedList e movieData dev
               = Some (?s, snd (saveMovieData (setItemOk e) (json_of_MovieStorage ?s) dev))"
      using that assms by (simp add: addToWatchedList_def Let_def id)
    have inner: "\<exists>i' < length ?w. movie_id (?w ! i') = md_id movieData
                    \<and> (\<forall>j < i'. movie_id (?w ! j) \<noteq> md_id movieData)
                    \<and> ?w[i := ?new] = ?w[i' := ?new]
                    \<and> length (?w[i := ?new]) = length ?w"
      using i by (intro exI [of _ i]) simp
    show ?thesis
      apply (rule conjI [OF my])
      apply (rule exI [of _ ?m])
      apply (rule exI [of _ "?w[i := ?new]"])
      apply (rule exI [of _ ?s])
      using w mem inner apply simp
      done
  qed
  from wa wb show ?thesis
    by (cases "findIndex ?p ?w") auto
qed

text \<open>
  The example movie is in \<open>myList\<close>: \<open>addToMyList\<close> changes nothing, and \<open>addToWatchedList\<close>
  removes it from \<open>myList\<close> and then inserts it into \<open>watchedList\<close>. The example movie is
  the second of two watched movies: \<open>addToWatchedList\<close> with another user rating
  overwrites the second entry and inserts nothing.
\<close>

theorem addToList_behaviour_witness:
  "loadMovieData (loadedAt example_env) (device_with stored_in_myList) = Some stored_in_myList
   \<and> addToMyList example_env example_movie (device_with stored_in_myList)
       = Some (stored_in_myList, device_with stored_in_myList)
   \<and> addToWatchedList example_env example_movie (device_with stored_in_myList)
       = Some (stored_in_watchedList, device_with stored_in_watchedList)
   \<and> loadMovieData (loadedAt example_env) (device_with stored_two_watched) = Some stored_two_watched
   \<and> addToWatchedList example_env example_rewatch (device_with stored_two_watched)
       = Some (stored_rewatched, device_with stored_rewatched)"
proof -
  have l: "loadMovieData (loadedAt example_env) (device_with stored_in_myList) = Some stored_in_myList"
    by (rule load_stored_in_myList)
  have l2: "loadMovieData (loadedAt example_env) (device_with stored_two_watched) = Some stored_two_watched"
    by (rule load_stored_two_watched)
  have a: "addToMyList example_env example_movie (device_with stored_in_myList)
       = Some (stored_in_myList, device_with stored_in_myList)
     \<and> addToWatchedList example_env example_movie (device_with stored_in_myList)
       = Some (stored_in_watchedList, device_with stored_in_watchedList)"
    using addToList_behaviour [OF l, of example_movie]
    by (auto simp add: stored_in_myList_def stored_in_watchedList_def example_entry_def
        device_with_def saveMovieData_def example_env_def createStoredMovie_def example_movie_def)
  have b: "addToWatchedList example_env example_rewatch (device_with stored_two_watched)
       = Some (stored_rewatched, device_with stored_rewatched)"
    using addToList_behaviour [OF l2, of example_rewatch]
    by (auto simp add: stored_two_watched_def stored_rewatched_def example_entry_def other_entry_def
        device_with_def saveMovieData_def example_env_def createStoredMovie_def example_movie_def
        example_rewatch_def or_number_def less_Suc_eq)
  from l l2 a b show ?thesis
    by simp
qed

subsection \<open>C9: a user rating of 0\<close>

text \<open>
  C9. For every movieData whose \<open>userRating\<close> is 0 and whose \<open>rating\<close> is a number other
  than 0, \<open>createStoredMovie\<close> stores \<open>rating\<close>, not the user's 0; so does the entry that
  \<open>addToWatchedList\<close> puts into \<open>watchedList\<close>, and the entry that \<open>addToMyList\<close> appends
  when the id is in neither list.
\<close>

theorem zero_userRating_is_replaced:
  assumes "md_userRating movieData = Val (Fin 0)"
    and "md_rating movieData = Val r" and "r \<noteq> Fin 0"
    and "loadMovieData (loadedAt e) dev = Some storage"
  shows "rating (createStoredMovie t movieData) = Val r
       \<and> rating (createStoredMovie t movieData) \<noteq> md_userRating movieData
       \<and> (\<exists>storage' dev' m. addToWatchedList e movieData dev = Some (storage', dev')
             \<and> m \<in> set (watchedList (lists storage'))
             \<and> movie_id m = md_id movieData \<and> rating m = Val r)
       \<and> (md_id movieData \<notin> set (map movie_id (myList (lists storage)))
                               \<union> set (map movie_id (watchedList (lists storage)))
            \<longrightarrow> (\<exists>storage' dev' m. addToMyList e movieData dev = Some (storage', dev')
                   \<and> m \<in> set (myList (lists storage'))
                   \<and> movie_id m = md_id movieData \<and> rating m = Val r))"
proof -
  have r: "rating (createStoredMovie t movieData) = Val r" for t
    using assms(1,2) by (simp add: createStoredMovie_def or_number_def)
  have i: "movie_id (createStoredMovie t movieData) = md_id movieData" for t
    by (simp add: createStoredMovie_def)
  let ?mv = "(createStoredMovie (now e) movieData)\<lparr>dateWatched := Val (watchedAt e)\<rparr>"
  let ?w = "watchedList (lists storage)"
  have mv: "movie_id ?mv = md_id movieData" "rating ?mv = Val r"
    using r i by simp_all
  have w: "\<exists>storage' dev' m. addToWatchedList e movieData dev = Some (storage', dev')
             \<and> m \<in> set (watchedList (lists storage'))
             \<and> movie_id m = md_id movieData \<and> rating m = Val r"
  proof (cases "findIndex (\<lambda>m. movie_id m = md_id movieData) ?w")
    case None
    with assms(4) mv show ?thesis
      by (simp add: addToWatchedList_def Let_def i) (rule exI [of _ ?mv], simp add: i)
  next
    case (Some k)
    from findIndex_Some [OF Some] have "k < length ?w" by simp
    then have "?mv \<in> set (?w[k := ?mv])"
      by (rule set_update_memI)
    with assms(4) mv Some show ?thesis
      by (simp add: addToWatchedList_def Let_def i) (rule exI [of _ ?mv], simp add: i)
  qed
  have m: "\<exists>storage' dev' m. addToMyList e movieData dev = Some (storage', dev')
                   \<and> m \<in> set (myList (lists storage'))
                   \<and> movie_id m = md_id movieData \<and> rating m = Val r"
    if "md_id movieData \<notin> set (map movie_id (myList (lists storage)))
                               \<union> set (map movie_id (watchedList (lists storage)))"
    using that assms(4) r [of "now e"] i [of "now e"]
    by (simp add: addToMyList_def Let_def list_ex_id)
       (rule exI [of _ "createStoredMovie (now e) movieData"], simp add: i)
  from r [of t] assms(1,3) w m show ?thesis
    by auto
qed

text \<open>The example movie has the user rating 0 and the public rating 4.2.\<close>

theorem zero_userRating_is_replaced_witness:
  "md_userRating example_movie = Val (Fin 0)
   \<and> md_rating example_movie = Val (Fin (42 / 10))
   \<and> rating (createStoredMovie (now example_env) example_movie) = Val (Fin (42 / 10))
   \<and> rating (createStoredMovie (now example_env) example_movie) \<noteq> md_userRating example_movie"
proof -
  have l: "loadMovieData (loadedAt example_env) browser = Some getDefaultStorage"
    by (simp add: loadMovieData_def browser_def)
  have u: "md_userRating example_movie = Val (Fin 0)"
    and r: "md_rating example_movie = Val (Fin (42 / 10))"
    and n: "Fin (42 / 10) \<noteq> Fin 0"
    by (simp_all add: example_movie_def)
  from zero_userRating_is_replaced [OF u r n l, of "now example_env"] u r show ?thesis
    by simp
qed


subsection \<open>C10: migration of data with both names\<close>

text \<open>Mapping a legacy list throws, or gives the stamped movies and the reads made.\<close>

lemma mapMovies_None:
  "None \<in> set entries \<Longrightarrow> mapMovies c k entries = None"
  by (induction c k entries rule: mapMovies.induct) (auto split: option.splits)

lemma mapMovies_Some:
  "None \<notin> set entries \<Longrightarrow>
     mapMovies c k entries
       = Some (stamped c k (present entries),
               k + length (filter (\<lambda>movie. \<not> truthy_string (lm_dateAdded movie)) (present entries)))"
  by (induction c k entries rule: mapMovies.induct) auto

lemma mapList_throws:
  "throws x \<Longrightarrow> mapList c k x = None"
  by (cases x) (simp_all add: mapMovies_None)

lemma mapList_maps:
  "\<not> throws x \<Longrightarrow>
     mapList c k x = Some (if x = Falsy then None else Some (stamped c k (movies_of x)), k + reads x)"
  by (cases x) (simp_all add: mapMovies_Some reads_def)

lemma stamped_length:
  "length (stamped c k movies) = length movies"
  by (induction c k movies rule: stamped.induct) simp_all

lemma stamped_without_reads:
  "\<forall>movie \<in> set movies. truthy_string (lm_dateAdded movie) \<Longrightarrow>
     stamped c k movies = map (migrateMovie t) movies"
  by (induction c k movies rule: stamped.induct)
     (auto simp: migrateMovie_def elim: truthy_string.elims)

text \<open>The six steps as a whole: they throw, or they give the store with the lists that win.\<close>

lemma migrateLists_throws:
  assumes "throws (old_myList l) \<or> throws (old_watchedList l)
             \<or> throws (old_wantToWatch l) \<or> throws (old_watched l)"
  shows "migrateLists c l newStorage = None"
  using assms
  by (auto simp: migrateLists_def mapList_throws mapList_maps Let_def split: option.splits)

lemma migrateLists_maps:
  assumes "\<not> throws (old_myList l)" and "\<not> throws (old_watchedList l)"
    and "\<not> throws (old_wantToWatch l)" and "\<not> throws (old_watched l)"
  shows "\<exists>migrated. migrateLists c l newStorage = Some migrated
     \<and> myList (lists migrated)
         = (if old_wantToWatch l \<noteq> Falsy
            then stamped c (reads (old_myList l) + reads (old_watchedList l))
                   (movies_of (old_wantToWatch l))
            else if old_myList l \<noteq> Falsy then stamped c 0 (movies_of (old_myList l))
            else myList (lists newStorage))
     \<and> watchedList (lists migrated)
         = (if old_watched l \<noteq> Falsy
            then stamped c (reads (old_myList l) + reads (old_watchedList l)
                              + reads (old_wantToWatch l))
                   (movies_of (old_watched l))
            else if old_watchedList l \<noteq> Falsy
            then stamped c (reads (old_myList l)) (movies_of (old_watchedList l))
            else watchedList (lists newStorage))
     \<and> blockedMovies (lists migrated)
         = (case old_blocked l of
              Some bs \<Rightarrow> bs
            | None \<Rightarrow> (case old_blockedMovies l of
                         Some bs \<Rightarrow> bs
                       | None \<Rightarrow> blockedMovies (lists newStorage)))
     \<and> version migrated = version newStorage
     \<and> embeddingProfile migrated = embeddingProfile newStorage"
  using assms
  by (simp add: migrateLists_def mapList_maps Let_def split: option.splits)

text \<open>
  Legacy data with \<open>null\<close> in \<open>lists.myList\<close> and one movie in \<open>lists.wantToWatch\<close>: mapping
  \<open>myList\<close> throws, the \<open>catch\<close> branch returns the default storage, and the migrated
  \<open>myList\<close> is empty, not the mapped \<open>wantToWatch\<close>. The same on the stored text of this
  data.
\<close>

theorem null_entry_discards_legacy_lists:
  "old_lists legacy_null = Val legacy_null_lists
   \<and> old_myList legacy_null_lists = Array [None]
   \<and> old_wantToWatch legacy_null_lists = Array [Some legacy_a]
   \<and> migrateFromOldVersion example_clock legacy_null = getDefaultStorage
   \<and> myList (lists (migrateFromOldVersion example_clock legacy_null)) = []
   \<and> myList (lists (migrateFromOldVersion example_clock legacy_null))
       \<noteq> [migrateMovie (example_clock 0) legacy_a]
   \<and> OldData_of_json legacy_null_json = Some legacy_null
   \<and> loadMovieData example_clock \<lparr>hasWindow = True, item = Some (Text legacy_null_json)\<rparr>
       = Some getDefaultStorage"
  by (simp add: legacy_null_def legacy_null_lists_def migrateFromOldVersion_def migrateLists_def
      getDefaultStorage_def loadMovieData_def legacy_null_json_def STORAGE_VERSION_def
      LegacyLists_of_json_def LegacyMovie_of_json_def legacy_a_def Let_def)

text \<open>
  C10 (amended). When none of the four \<open>map\<close> calls of the migration throws, a truthy
  \<open>lists.wantToWatch\<close> alone makes the migrated \<open>myList\<close>, whether \<open>lists.myList\<close> is there or
  not: it is the legacy movies mapped, where the clock reads of the movies without
  \<open>dateAdded\<close> come after the reads that mapping \<open>lists.myList\<close> and \<open>lists.watchedList\<close>
  made. Likewise a truthy \<open>lists.watched\<close> alone makes the migrated \<open>watchedList\<close> and a
  truthy \<open>lists.blocked\<close> the migrated \<open>blockedMovies\<close>. When one of the four \<open>map\<close> calls
  throws (the list is truthy but no array, or holds \<open>null\<close>), the migrated store is the
  default storage and holds none of the legacy lists.
\<close>

theorem legacy_names_overwrite_unless_map_throws:
  assumes "old_lists oldData = Val l"
  shows "(throws (old_myList l) \<or> throws (old_watchedList l)
            \<or> throws (old_wantToWatch l) \<or> throws (old_watched l)
          \<longrightarrow> migrateFromOldVersion c oldData = getDefaultStorage)
       \<and> (\<not> throws (old_myList l) \<and> \<not> throws (old_watchedList l)
            \<and> \<not> throws (old_wantToWatch l) \<and> \<not> throws (old_watched l)
          \<longrightarrow> (old_wantToWatch l \<noteq> Falsy
                 \<longrightarrow> myList (lists (migrateFromOldVersion c oldData))
                       = stamped c (reads (old_myList l) + reads (old_watchedList l))
                           (movies_of (old_wantToWatch l)))
             \<and> (old_watched l \<noteq> Falsy
                 \<longrightarrow> watchedList (lists (migrateFromOldVersion c oldData))
                       = stamped c (reads (old_myList l) + reads (old_watchedList l)
                                      + reads (old_wantToWatch l))
                           (movies_of (old_watched l)))
             \<and> (old_blocked l = Some blocked'
                 \<longrightarrow> blockedMovies (lists (migrateFromOldVersion c oldData)) = blocked'))"
proof (intro conjI impI)
  assume "throws (old_myList l) \<or> throws (old_watchedList l)
            \<or> throws (old_wantToWatch l) \<or> throws (old_watched l)"
  then have "migrateLists c l getDefaultStorage = None"
    by (rule migrateLists_throws)
  with assms show "migrateFromOldVersion c oldData = getDefaultStorage"
    by (simp add: migrateFromOldVersion_def Let_def)
next
  assume "\<not> throws (old_myList l) \<and> \<not> throws (old_watchedList l)
            \<and> \<not> throws (old_wantToWatch l) \<and> \<not> throws (old_watched l)"
  then obtain migrated where m: "migrateLists c l getDefaultStorage = Some migrated"
    "old_wantToWatch l \<noteq> Falsy \<Longrightarrow> myList (lists migrated)
       = stamped c (reads (old_myList l) + reads (old_watchedList l)) (movies_of (old_wantToWatch l))"
    "old_watched l \<noteq> Falsy \<Longrightarrow> watchedList (lists migrated)
       = stamped c (reads (old_myList l) + reads (old_watchedList l) + reads (old_wantToWatch l))
           (movies_of (old_watched l))"
    "\<And>bs. old_blocked l = Some bs \<Longrightarrow> blockedMovies (lists migrated) = bs"
    using migrateLists_maps [of l c getDefaultStorage] by auto
  from assms m(1) have r: "migrateFromOldVersion c oldData = migrated\<lparr>embeddingProfile := []\<rparr>"
    by (simp add: migrateFromOldVersion_def Let_def)
  {
    assume "old_wantToWatch l \<noteq> Falsy"
    with m(2) r show "myList (lists (migrateFromOldVersion c oldData))
        = stamped c (reads (old_myList l) + reads (old_watchedList l)) (movies_of (old_wantToWatch l))"
      by simp
  }
  {
    assume "old_watched l \<noteq> Falsy"
    with m(3) r show "watchedList (lists (migrateFromOldVersion c oldData))
        = stamped c (reads (old_myList l) + reads (old_watchedList l) + reads (old_wantToWatch l))
            (movies_of (old_watched l))"
      by simp
  }
  {
    assume "old_blocked l = Some blocked'"
    with m(4) r show "blockedMovies (lists (migrateFromOldVersion c oldData)) = blocked'"
      by simp
  }
qed

text \<open>
  Legacy data with all six lists, none of which throws: the three lists under the
  legacy names are what the migrated store holds. Mapping \<open>lists.myList\<close> has read the
  clock once, so the two movies of \<open>lists.wantToWatch\<close> carry its second and third value.
  Legacy data whose \<open>lists.myList\<close> holds \<open>null\<close>: the migrated store is the default storage.
\<close>

theorem legacy_names_overwrite_unless_map_throws_witness:
  "myList (lists (migrateFromOldVersion example_clock legacy_both))
     = [migrateMovie ''2024-05-01T10:00:00.001Z'' legacy_b,
        migrateMovie ''2024-05-01T10:00:00.002Z'' legacy_c]
   \<and> watchedList (lists (migrateFromOldVersion example_clock legacy_both)) = []
   \<and> blockedMovies (lists (migrateFromOldVersion example_clock legacy_both)) = [''2'', ''3'']
   \<and> throws (old_myList legacy_null_lists)
   \<and> migrateFromOldVersion example_clock legacy_null = getDefaultStorage"
  using legacy_names_overwrite_unless_map_throws
    [of legacy_both legacy_both_lists example_clock "[''2'', ''3'']"]
    legacy_names_overwrite_unless_map_throws [of legacy_null legacy_null_lists example_clock]
  by (simp add: legacy_both_def legacy_both_lists_def reads_def legacy_a_def legacy_b_def
      legacy_c_def legacy_null_def legacy_null_lists_def)

text \<open>
  Where no movie lacks \<open>dateAdded\<close> the clock is not read, and the migrated lists are the
  legacy lists mapped movie by movie.
\<close>

lemma legacy_names_overwrite_dated_movies:
  assumes "old_lists oldData = Val l"
    and "\<not> throws (old_myList l)" and "\<not> throws (old_watchedList l)" and "\<not> throws (old_watched l)"
    and "old_wantToWatch l = Array (map Some legacy)"
    and "\<forall>movie \<in> set legacy. truthy_string (lm_dateAdded movie)"
  shows "myList (lists (migrateFromOldVersion c oldData)) = map (migrateMovie t) legacy"
proof -
  have p: "present (map Some legacy) = legacy"
    by (induction legacy) simp_all
  have t: "\<not> throws (old_wantToWatch l)" and f: "old_wantToWatch l \<noteq> Falsy"
    using assms(5) by auto
  from migrateLists_maps [OF assms(2,3) t assms(4), of c getDefaultStorage] f obtain migrated where
    m: "migrateLists c l getDefaultStorage = Some migrated"
      "myList (lists migrated) = stamped c (reads (old_myList l) + reads (old_watchedList l))
         (movies_of (old_wantToWatch l))"
    by auto
  from m assms(1,5) have "myList (lists (migrateFromOldVersion c oldData))
      = stamped c (reads (old_myList l) + reads (old_watchedList l)) legacy"
    by (simp add: migrateFromOldVersion_def Let_def p)
  with stamped_without_reads [OF assms(6)] show ?thesis
    by simp
qed

text \<open>
  The same on a stored text: \<open>loadMovieData\<close> finds version 1.0, migrates, and returns
  \<open>myList\<close> with the movie of \<open>wantToWatch\<close> alone, stamped with the clock and with the
  current version.
\<close>

lemma load_of_legacy_text:
  "loadMovieData c \<lparr>hasWindow = True, item = Some legacy_text\<rparr> = Some (legacy_loaded (c 0))"
  by (simp add: loadMovieData_def legacy_text_def STORAGE_VERSION_def LegacyLists_of_json_def
      LegacyMovie_of_json_def migrateFromOldVersion_def migrateLists_def migrateMovie_def
      getDefaultStorage_def Let_def legacy_loaded_def)

text \<open>
  On data that the readers type, the two ways of telling that a migration throws agree.
\<close>

lemma read_entry_null:
  "those (map read_entry vs) = Some entries \<Longrightarrow> None \<in> set entries \<longleftrightarrow> JNull \<in> set vs"
proof (induction vs arbitrary: entries)
  case Nil
  then show ?case by auto
next
  case (Cons v vs)
  then show ?case
    by (cases v) (auto split: option.splits)
qed

lemma read_movies_throws:
  "read_movies x = Some y \<Longrightarrow> throws y \<longleftrightarrow> map_throws x"
proof (cases x)
  case None
  then show "read_movies x = Some y \<Longrightarrow> throws y \<longleftrightarrow> map_throws x"
    by auto
next
  case (Some v)
  then show "read_movies x = Some y \<Longrightarrow> throws y \<longleftrightarrow> map_throws x"
    by (cases v) (auto dest: read_entry_null split: if_splits)
qed

lemma migration_throws_typed:
  assumes "OldData_of_json parsed = Some oldData"
  shows "migration_throws parsed \<longleftrightarrow>
           (\<exists>l. old_lists oldData = Val l
              \<and> (throws (old_myList l) \<or> throws (old_watchedList l)
                   \<or> throws (old_wantToWatch l) \<or> throws (old_watched l)))"
proof (cases "field parsed ''lists''")
  case None
  with assms show ?thesis
    by (auto simp: migration_throws_def)
next
  case (Some l)
  show ?thesis
  proof (cases "l = JNull")
    case True
    with Some assms show ?thesis
      by (auto simp: migration_throws_def)
  next
    case False
    with Some assms obtain ll where
      ll: "LegacyLists_of_json l = Some ll" "old_lists oldData = Val ll"
      by (cases l) auto
    from ll(1) have r:
      "read_movies (field l ''myList'') = Some (old_myList ll)"
      "read_movies (field l ''watchedList'') = Some (old_watchedList ll)"
      "read_movies (field l ''wantToWatch'') = Some (old_wantToWatch ll)"
      "read_movies (field l ''watched'') = Some (old_watched ll)"
      by (auto simp: LegacyLists_of_json_def split: Option.bind_splits)
    have t: "truthy l" if "field l k = Some v" for k v
      using that by (cases l) auto
    have "map_throws (field l k) \<Longrightarrow> truthy l" for k
      using t [of k] by (cases "field l k") auto
    with Some ll(2) read_movies_throws [OF r(1)] read_movies_throws [OF r(2)]
      read_movies_throws [OF r(3)] read_movies_throws [OF r(4)]
    show ?thesis
      by (auto simp: migration_throws_def)
  qed
qed

text \<open>
  For every stored text of another version in which \<open>lists.myList\<close> or
  \<open>lists.wantToWatch\<close> is an array that holds \<open>null\<close>, whatever else the text holds, the
  store that \<open>loadMovieData\<close> returns is the default storage.
\<close>

lemma load_of_text_with_null_entry:
  assumes "field parsed ''version'' \<noteq> Some (JStr STORAGE_VERSION)"
    and "field parsed ''lists'' = Some l"
    and "field l ''myList'' = Some (JArr current)"
    and "field l ''wantToWatch'' = Some (JArr legacy)"
    and "JNull \<in> set current \<or> JNull \<in> set legacy"
  shows "loadMovieData c \<lparr>hasWindow = True, item = Some (Text parsed)\<rparr> = Some getDefaultStorage"
proof -
  from assms(2) have n: "parsed \<noteq> JNull" by auto
  from assms(3) have "truthy l" by (cases l) auto
  with assms(2-5) have m: "migration_throws parsed"
    by (auto simp: migration_throws_def)
  show ?thesis
  proof (cases "OldData_of_json parsed")
    case None
    with assms(1) n m show ?thesis
      by (simp add: loadMovieData_def)
  next
    case (Some oldData)
    with m migration_throws_typed [OF Some] obtain ll where
      ll: "old_lists oldData = Val ll"
        "throws (old_myList ll) \<or> throws (old_watchedList ll)
           \<or> throws (old_wantToWatch ll) \<or> throws (old_watched ll)"
      by auto
    from migrateLists_throws [OF ll(2)] ll(1)
    have "migrateFromOldVersion c oldData = getDefaultStorage"
      by (simp add: migrateFromOldVersion_def Let_def)
    with Some assms(1) n show ?thesis
      by (simp add: loadMovieData_def)
  qed
qed

text \<open>
  For every stored text of another version that has \<open>lists.myList\<close> and
  \<open>lists.wantToWatch\<close>, both arrays, and whose migration does not throw: if \<open>loadMovieData\<close>
  reads it, the \<open>myList\<close> it returns is the mapped \<open>wantToWatch\<close>.
\<close>

lemma read_entry_present:
  "those (map read_entry vs) = Some entries \<Longrightarrow> JNull \<notin> set vs \<Longrightarrow>
     those (map LegacyMovie_of_json vs) = Some (present entries)"
proof (induction vs arbitrary: entries)
  case Nil
  then show ?case by auto
next
  case (Cons v vs)
  then show ?case
    by (cases v) (auto split: option.splits)
qed

lemma load_of_text_with_both_names:
  assumes "loadMovieData c \<lparr>hasWindow = True, item = Some (Text parsed)\<rparr> = Some s"
    and "field parsed ''version'' \<noteq> Some (JStr STORAGE_VERSION)"
    and "field parsed ''lists'' = Some l"
    and "field l ''myList'' = Some (JArr current)"
    and "field l ''wantToWatch'' = Some (JArr legacy)"
    and "\<not> migration_throws parsed"
  shows "\<exists>movies k. those (map LegacyMovie_of_json legacy) = Some movies
           \<and> myList (lists s) = stamped c k movies"
proof -
  from assms(3) have n: "parsed \<noteq> JNull" by auto
  from assms(4) have ln: "l \<noteq> JNull" by auto
  from assms(1,2,6) n obtain oldData where
    o: "OldData_of_json parsed = Some oldData" "s = migrateFromOldVersion c oldData"
    by (auto simp: loadMovieData_def split: option.splits)
  from o(1) assms(3) ln obtain ll where
    ll: "LegacyLists_of_json l = Some ll" "old_lists oldData = Val ll"
    by (cases l) auto
  from ll(1) assms(5) obtain entries where
    e: "those (map read_entry legacy) = Some entries" "old_wantToWatch ll = Array entries"
    by (auto simp: LegacyLists_of_json_def split: Option.bind_splits)
  from assms(6) migration_throws_typed [OF o(1)] ll(2) have
    t: "\<not> throws (old_myList ll)" "\<not> throws (old_watchedList ll)"
       "\<not> throws (old_wantToWatch ll)" "\<not> throws (old_watched ll)"
    by auto
  from t(3) e have "JNull \<notin> set legacy"
    by (auto dest: read_entry_null)
  with e(1) have m: "those (map LegacyMovie_of_json legacy) = Some (present entries)"
    by (rule read_entry_present)
  from migrateLists_maps [OF t, of c getDefaultStorage] e(2) obtain migrated where
    "migrateLists c ll getDefaultStorage = Some migrated"
    "myList (lists migrated)
       = stamped c (reads (old_myList ll) + reads (old_watchedList ll)) (present entries)"
    by auto
  with ll(2) o(2) have "myList (lists s)
       = stamped c (reads (old_myList ll) + reads (old_watchedList ll)) (present entries)"
    by (simp add: migrateFromOldVersion_def Let_def)
  with m show ?thesis
    by blast
qed

subsection \<open>C7: export, import and load\<close>

lemma shape_lists [simp]: "store_shape (s\<lparr>lists := l\<rparr>) = store_shape s"
  by (simp add: store_shape_def)

lemma perform_shape:
  assumes "device_holds store_shape dev"
  shows "\<exists>dev'. perform e c dev = Some dev' \<and> device_holds store_shape dev'
           \<and> hasWindow dev' = hasWindow dev"
proof -
  from load_shape [OF assms] obtain s where
    s: "loadMovieData (loadedAt e) dev = Some s" "store_shape s" by blast
  have sv: "device_holds store_shape (snd (saveMovieData a (json_of_MovieStorage s') dev))
            \<and> hasWindow (snd (saveMovieData a (json_of_MovieStorage s') dev)) = hasWindow dev"
    if "store_shape s'" for a s'
    using save_holds [OF assms that, of a] by (simp add: saveMovieData_def)
  show ?thesis
  proof (cases c)
    case (AddToMyList md)
    with s assms sv show ?thesis by (simp add: addToMyList_def Let_def)
  next
    case (AddToWantToWatchList md)
    with s assms sv show ?thesis by (simp add: addToWantToWatchList_def Let_def)
  next
    case (AddToWatchedList md)
    with s assms sv show ?thesis by (simp add: addToWatchedList_def Let_def)
  next
    case (RemoveFromList i lt)
    with s assms sv show ?thesis by (simp add: removeFromList_def Let_def)
  next
    case (MoveToWantToWatchList i)
    with s assms sv show ?thesis
      by (simp add: moveToWantToWatchList_def Let_def split: option.splits)
  next
    case (MoveToMyList i)
    with s assms sv show ?thesis
      by (simp add: moveToMyList_def Let_def split: option.splits)
  next
    case (ReorderMyList xs)
    with s assms sv show ?thesis by (simp add: reorderMyList_def Let_def)
  next
    case (BlockMovie i)
    with s assms sv show ?thesis by (simp add: blockMovie_def Let_def)
  next
    case ClearAllData
    with assms show ?thesis
      by (simp add: clearAllData_holds) (simp add: clearAllData_def)
  qed
qed

lemma run_shape:
  assumes "device_holds store_shape dev"
  shows "\<exists>dev'. run cs dev = Some dev' \<and> device_holds store_shape dev'
           \<and> hasWindow dev' = hasWindow dev"
  using assms
proof (induction cs arbitrary: dev)
  case Nil
  then show ?case by simp
next
  case (Cons ec cs)
  obtain e c where ec: "ec = (e, c)" by (cases ec)
  from perform_shape [OF Cons.prems, of e c]
  obtain dev1 where d1: "perform e c dev = Some dev1" "device_holds store_shape dev1"
      "hasWindow dev1 = hasWindow dev"
    by blast
  from Cons.IH [OF d1(2)] obtain dev' where
    "run cs dev1 = Some dev'" "device_holds store_shape dev'" "hasWindow dev' = hasWindow dev1"
    by blast
  with d1 ec show ?case by simp
qed

lemma roundtrip_on_device:
  assumes "device_holds store_shape dev"
  shows "\<exists>s. loadMovieData t dev = Some s
           \<and> exportData t dev = Some (Text (json_of_MovieStorage s))
           \<and> loadMovieData t' (snd (importData accepted (Text (json_of_MovieStorage s)) dev)) = Some s
           \<and> fst (importData accepted (Text (json_of_MovieStorage s)) dev) = (hasWindow dev \<and> accepted)"
proof -
  from load_shape [OF assms] obtain s where
    s: "loadMovieData t dev = Some s" "store_shape s" by blast
  have same: "loadMovieData t' dev = Some s"
    using s(1) load_independent_of_clock [OF assms, of t' t] by simp
  have r: "reparse_MovieStorage s = s"
  proof (cases "hasWindow dev \<and> item dev \<noteq> None")
    case False
    with s(1) load_default [of dev t] show ?thesis by auto
  next
    case True
    with assms obtain s0 where s0: "item dev = Some (Text (json_of_MovieStorage s0))" "store_shape s0"
      by (auto simp: device_holds_def)
    with True s(1) load_saved [of dev s0 t] show ?thesis
      by (auto simp: reparse_MovieStorage_idem)
  qed
  have written: "loadMovieData t' (dev\<lparr>item := Some (Text (json_of_MovieStorage s))\<rparr>) = Some s"
    if "hasWindow dev"
    using that s(2) r load_saved [of "dev\<lparr>item := Some (Text (json_of_MovieStorage s))\<rparr>" s t']
    by simp
  show ?thesis
    using s(1) same written
    by (auto simp: exportData_def importData_def saveMovieData_def)
qed

text \<open>
  C7, as stated, fails: without a window (server-side rendering) the store is the default
  store, \<open>exportData\<close> returns its text, and \<open>importData\<close> of that text returns false.
\<close>

theorem importData_false_without_window:
  "run [] server = Some server
   \<and> exportData (clock_at ''2024-05-01T10:00:00.000Z'') server = Some (Text (json_of_MovieStorage getDefaultStorage))
   \<and> importData True (Text (json_of_MovieStorage getDefaultStorage)) server = (False, server)"
  by (simp add: server_def exportData_def loadMovieData_def importData_def saveMovieData_def)

text \<open>
  C7, amended. Starting with nothing stored, after any finite sequence of calls to the
  mutators \<open>addToMyList\<close>, \<open>addToWantToWatchList\<close>, \<open>addToWatchedList\<close>,
  \<open>removeFromList\<close>, \<open>moveToWantToWatchList\<close>, \<open>moveToMyList\<close>, \<open>reorderMyList\<close>,
  \<open>blockMovie\<close> and \<open>clearAllData\<close>, \<open>exportData\<close> followed by \<open>importData\<close> of the
  exported text and a load gives a store equal to the one loaded before; \<open>importData\<close>
  returns true exactly when the device has a window and \<open>localStorage.setItem\<close>
  succeeds, and false otherwise.
\<close>

theorem export_import_roundtrip:
  assumes "item dev0 = None"
  shows "\<exists>dev s. run cs dev0 = Some dev
           \<and> loadMovieData t dev = Some s
           \<and> exportData t dev = Some (Text (json_of_MovieStorage s))
           \<and> loadMovieData t' (snd (importData accepted (Text (json_of_MovieStorage s)) dev)) = Some s
           \<and> fst (importData accepted (Text (json_of_MovieStorage s)) dev) = (hasWindow dev0 \<and> accepted)"
proof -
  have "device_holds store_shape dev0"
    using assms by (simp add: device_holds_def)
  from run_shape [OF this, of cs] obtain dev where
    dev: "run cs dev0 = Some dev" "device_holds store_shape dev" "hasWindow dev = hasWindow dev0"
    by blast
  from roundtrip_on_device [OF dev(2), of t t' accepted] dev(1,3) show ?thesis
    by auto
qed

text \<open>Three calls on a browser with nothing stored, then export, import and load.\<close>

theorem export_import_roundtrip_witness:
  "\<exists>dev s. run [(example_env, AddToMyList example_movie),
               (example_env, ReorderMyList []),
               (example_env, BlockMovie ''278'')] browser = Some dev
     \<and> loadMovieData (clock_at ''2024-05-01T10:00:00.003Z'') dev = Some s
     \<and> exportData (clock_at ''2024-05-01T10:00:00.003Z'') dev = Some (Text (json_of_MovieStorage s))
     \<and> loadMovieData (clock_at ''2024-05-01T10:00:00.004Z'')
          (snd (importData True (Text (json_of_MovieStorage s)) dev)) = Some s
     \<and> fst (importData True (Text (json_of_MovieStorage s)) dev) = True"
  using export_import_roundtrip [of browser
      "[(example_env, AddToMyList example_movie),
        (example_env, ReorderMyList []),
        (example_env, BlockMovie ''278'')]"
      "clock_at ''2024-05-01T10:00:00.003Z''" "clock_at ''2024-05-01T10:00:00.004Z''" True]
  by (simp add: browser_def)

text \<open>
  \<open>importData\<close> is not among the mutators of the theorem above. A text of an older
  version that it stores is migrated by every load and stamped with the clock of that load,
  until a mutator saves the store: the store loaded with the clock \<open>c0\<close>, exported with
  the clock \<open>c1\<close>, imported and loaded again carries the stamp of \<open>c1\<close>.
\<close>

lemma legacy_text_is_restamped:
  "loadMovieData c0 \<lparr>hasWindow = True, item = Some legacy_text\<rparr> = Some (legacy_loaded (c0 0))
   \<and> exportData c1 \<lparr>hasWindow = True, item = Some legacy_text\<rparr>
       = Some (Text (json_of_MovieStorage (legacy_loaded (c1 0))))
   \<and> loadMovieData c2
         (snd (importData True (Text (json_of_MovieStorage (legacy_loaded (c1 0))))
                 \<lparr>hasWindow = True, item = Some legacy_text\<rparr>))
       = Some (legacy_loaded (c1 0))
   \<and> (legacy_loaded (c1 0) = legacy_loaded (c0 0) \<longleftrightarrow> c1 0 = c0 0)"
proof -
  have r: "reparse_MovieStorage (legacy_loaded t1) = legacy_loaded t1" for t1
    by (simp add: reparse_MovieStorage_def legacy_loaded_def reparse_StoredMovie_def)
  have "loadMovieData c2 \<lparr>hasWindow = True, item = Some (Text (json_of_MovieStorage (legacy_loaded (c1 0))))\<rparr>
          = Some (legacy_loaded (c1 0))"
    using load_saved [of "\<lparr>hasWindow = True, item = Some (Text (json_of_MovieStorage (legacy_loaded (c1 0))))\<rparr>"
        "legacy_loaded (c1 0)" c2] r
    by (simp add: store_shape_def legacy_loaded_def)
  then show ?thesis
    by (simp add: load_of_legacy_text exportData_def importData_def saveMovieData_def)
       (auto simp: legacy_loaded_def)
qed

section \<open>Verification of the fetch primitive and the movie source\<close>

subsection \<open>C2: what fetchWithRetry retries\<close>

text \<open>The four ways one call of \<open>fetchWithRetry\<close> goes on, by its first attempt.\<close>

lemma fetchWithRetry_slow:
  "slow (net e (length (log w)) u) \<Longrightarrow>
   fetchWithRetry e u retries w = (Inl AbortError, w\<lparr>log := log w @ [Fetch u]\<rparr>)"
  by (subst fetchWithRetry.simps) (simp add: Let_def)

lemma fetchWithRetry_ok:
  "\<not> slow (net e (length (log w)) u) \<Longrightarrow> outcome (net e (length (log w)) u) = Responds r \<Longrightarrow> ok r \<Longrightarrow>
   fetchWithRetry e u retries w = (Inr r, w\<lparr>log := log w @ [Fetch u]\<rparr>)"
  by (subst fetchWithRetry.simps) (simp add: Let_def)

lemma fetchWithRetry_retry:
  "\<not> slow (net e (length (log w)) u) \<Longrightarrow> fails (outcome (net e (length (log w)) u)) \<Longrightarrow> 0 < retries \<Longrightarrow>
   fetchWithRetry e u retries w
     = fetchWithRetry e u (retries - 1) (w\<lparr>log := log w @ [Fetch u, Delay retryDelay]\<rparr>)"
  by (subst fetchWithRetry.simps) (auto simp: Let_def split: outcome.splits)

lemma fetchWithRetry_give_up:
  "\<not> slow (net e (length (log w)) u) \<Longrightarrow> fails (outcome (net e (length (log w)) u)) \<Longrightarrow> \<not> 0 < retries \<Longrightarrow>
   \<exists>err. fetchWithRetry e u retries w = (Inl err, w\<lparr>log := log w @ [Fetch u]\<rparr>)"
  by (subst fetchWithRetry.simps) (auto simp: Let_def split: outcome.splits)

lemma fetchWithRetry_cases:
  obtains (slow) "slow (net e (length (log w)) u)"
  | (ok) r where "\<not> slow (net e (length (log w)) u)" "outcome (net e (length (log w)) u) = Responds r" "ok r"
  | (retry) "\<not> slow (net e (length (log w)) u)" "fails (outcome (net e (length (log w)) u))" "0 < retries"
  | (give_up) "\<not> slow (net e (length (log w)) u)" "fails (outcome (net e (length (log w)) u))" "\<not> 0 < retries"
  by (cases "outcome (net e (length (log w)) u)") auto

lemma fetchWithRetry_log_bound:
  "length (log (snd (fetchWithRetry e u retries w))) \<le> length (log w) + 2 * nat retries + 1"
proof (induction "nat retries" arbitrary: retries w)
  case 0
  then have "\<not> 0 < retries" by simp
  then show ?case
    using fetchWithRetry_give_up [of e w u retries]
    by (cases rule: fetchWithRetry_cases [where e = e and w = w and u = u and retries = retries])
       (auto simp: fetchWithRetry_slow fetchWithRetry_ok)
next
  case (Suc n)
  then have n: "n = nat (retries - 1)" "0 < retries" by auto
  show ?case
  proof (cases rule: fetchWithRetry_cases [where e = e and w = w and u = u and retries = retries])
    case retry
    with Suc.hyps(1) [OF n(1), of "w\<lparr>log := log w @ [Fetch u, Delay retryDelay]\<rparr>"] n show ?thesis
      by (simp add: fetchWithRetry_retry)
  qed (use n in \<open>auto simp: fetchWithRetry_slow fetchWithRetry_ok\<close>)
qed

lemma fetchWithRetry_cache:
  "cachedFallbackMovies (snd (fetchWithRetry e u retries w)) = cachedFallbackMovies w"
proof (induction "nat retries" arbitrary: retries w)
  case 0
  then have "\<not> 0 < retries" by simp
  then show ?case
    using fetchWithRetry_give_up [of e w u retries]
    by (cases rule: fetchWithRetry_cases [where e = e and w = w and u = u and retries = retries])
       (auto simp: fetchWithRetry_slow fetchWithRetry_ok)
next
  case (Suc n)
  then have n: "n = nat (retries - 1)" "0 < retries" by auto
  show ?case
  proof (cases rule: fetchWithRetry_cases [where e = e and w = w and u = u and retries = retries])
    case retry
    with Suc.hyps(1) [OF n(1), of "w\<lparr>log := log w @ [Fetch u, Delay retryDelay]\<rparr>"] n show ?thesis
      by (simp add: fetchWithRetry_retry)
  qed (use n in \<open>auto simp: fetchWithRetry_slow fetchWithRetry_ok\<close>)
qed

lemma fetchWithRetry_all_fail:
  assumes "\<And>k. slow (net e k u) \<or> fails (outcome (net e k u))"
  shows "\<exists>err. fst (fetchWithRetry e u retries w) = Inl err"
proof (induction "nat retries" arbitrary: retries w)
  case 0
  then have "\<not> 0 < retries" by simp
  then show ?case
    using fetchWithRetry_give_up [of e w u retries] assms [of "length (log w)"]
    by (cases rule: fetchWithRetry_cases [where e = e and w = w and u = u and retries = retries])
       (auto simp: fetchWithRetry_slow)
next
  case (Suc n)
  then have n: "n = nat (retries - 1)" "0 < retries" by auto
  show ?case
  proof (cases rule: fetchWithRetry_cases [where e = e and w = w and u = u and retries = retries])
    case retry
    with Suc.hyps(1) [OF n(1), of "w\<lparr>log := log w @ [Fetch u, Delay retryDelay]\<rparr>"] n show ?thesis
      by (simp add: fetchWithRetry_retry)
  qed (use n assms [of "length (log w)"] in \<open>auto simp: fetchWithRetry_slow\<close>)
qed

text \<open>
  C2, as stated, fails: with two retries left, an attempt that times out is not followed
  by a delay and a recursive call. The call sends one request and throws the AbortError.
\<close>

theorem timeout_is_not_retried:
  "0 < maxRetries
   \<and> slow (net env_slow (length (log world0)) (PopularUrl 1))
   \<and> fetchWithRetry env_slow (PopularUrl 1) maxRetries world0
       = (Inl AbortError, \<lparr>cachedFallbackMovies = None, log = [Fetch (PopularUrl 1)]\<rparr>)"
  by (simp add: fetchWithRetry.simps [of env_slow] maxRetries_def)
     (simp add: env_slow_def world0_def)

text \<open>
  C2, amended. For every call \<open>fetchWithRetry(url, r)\<close> with \<open>r > 0\<close>, an attempt that
  fails before the timer fires (the fetch rejects, or the response is not \<open>ok\<close>) is
  followed by the fixed delay of 500 ms and the recursive call \<open>fetchWithRetry(url, r - 1)\<close>;
  an attempt that times out is thrown at once as an AbortError, for every \<open>r\<close>, with no
  delay and no further request. A call logs at most \<open>2 r + 1\<close> events, so the retries are
  bounded.
\<close>

theorem fetchWithRetry_retries_fast_failures_only:
  "(0 < retries \<and> \<not> slow (net e (length (log w)) u) \<and> fails (outcome (net e (length (log w)) u))
      \<longrightarrow> fetchWithRetry e u retries w
            = fetchWithRetry e u (retries - 1) (w\<lparr>log := log w @ [Fetch u, Delay 500]\<rparr>))
   \<and> (slow (net e (length (log w)) u)
      \<longrightarrow> fetchWithRetry e u retries w = (Inl AbortError, w\<lparr>log := log w @ [Fetch u]\<rparr>))
   \<and> length (log (snd (fetchWithRetry e u retries w))) \<le> length (log w) + 2 * nat retries + 1"
  using fetchWithRetry_retry [of e w u retries] fetchWithRetry_slow [of e w u retries]
    fetchWithRetry_log_bound [of e u retries w]
  by (simp add: retryDelay_def)

text \<open>A network that rejects every request at once, and a network on which every request times out.\<close>

theorem fetchWithRetry_retries_fast_failures_only_witness:
  "(0::int) < 2
   \<and> \<not> slow (net env_down (length (log world0)) (PopularUrl 1))
   \<and> fails (outcome (net env_down (length (log world0)) (PopularUrl 1)))
   \<and> fetchWithRetry env_down (PopularUrl 1) 2 world0
       = fetchWithRetry env_down (PopularUrl 1) 1 (world0\<lparr>log := [Fetch (PopularUrl 1), Delay 500]\<rparr>)
   \<and> slow (net env_slow (length (log world0)) (PopularUrl 1))
   \<and> fetchWithRetry env_slow (PopularUrl 1) 2 world0
       = (Inl AbortError, world0\<lparr>log := [Fetch (PopularUrl 1)]\<rparr>)"
  using fetchWithRetry_retries_fast_failures_only [of 2 env_down world0 "PopularUrl 1"]
    fetchWithRetry_retries_fast_failures_only [of 2 env_slow world0 "PopularUrl 1"]
  by (simp add: env_down_def env_slow_def world0_def)

subsection \<open>C4: without a credential\<close>

lemma loadFallbackMovies_eq:
  "loadFallbackMovies e w =
     (case cachedFallbackMovies w of
        Some cached \<Rightarrow> (Inr cached, w)
      | None \<Rightarrow>
          (let movies = (case bundled e (fst (fetch e FallbackUrl w)) of
                           Some movies \<Rightarrow> movies | None \<Rightarrow> hardcodedFallback)
           in (Inr movies, \<lparr>cachedFallbackMovies = Some movies, log = log w @ [Fetch FallbackUrl]\<rparr>)))"
  by (simp add: loadFallbackMovies_def fetch_def Let_def split: option.splits)

text \<open>
  C4, as stated, fails: without a credential, when the bundled file cannot be fetched,
  \<open>getRecommendations\<close> returns the two hardcoded movies, not the bundled dataset.
\<close>

theorem no_key_without_bundled_file:
  "\<not> has_key env_offline
   \<and> bundled env_offline (fst (fetch env_offline FallbackUrl world0)) = None
   \<and> getRecommendations env_offline [] [] [] world0
       = (Inr hardcodedFallback,
          \<lparr>cachedFallbackMovies = Some hardcodedFallback, log = [Fetch FallbackUrl]\<rparr>)"
  by (simp add: getRecommendations_def excluded_ids_def loadFallbackMovies_eq Let_def has_key_def
      bundled_def fetch_def env_offline_def world0_def)

text \<open>
  C4, amended. For every pair of exclusion-id lists, without a credential
  \<open>getRecommendations\<close> sends no request to the provider (it sends nothing when a list is
  cached, and otherwise one request, for the bundled file) and returns the fallback list
  without the movies whose id is among the watched and blocked ids passed through
  \<open>parseInt\<close>. The fallback list is the cached list if there is one, else the bundled
  dataset with its string ids passed through \<open>parseInt\<close> if the file loads, else the two
  hardcoded movies; a list obtained in the call is cached.
\<close>

theorem no_key_returns_fallback_list:
  assumes "\<not> has_key e"
  shows "getRecommendations e excludeWatchedIds excludeBlockedIds watchedMovies w =
           (case cachedFallbackMovies w of
              Some cached \<Rightarrow>
                (Inr (filter (\<lambda>movie. tmdb_id movie \<notin> set (map (parseInt e) (excludeWatchedIds @ excludeBlockedIds)))
                        cached),
                 w)
            | None \<Rightarrow>
                (Inr (filter (\<lambda>movie. tmdb_id movie \<notin> set (map (parseInt e) (excludeWatchedIds @ excludeBlockedIds)))
                        (case bundled e (fst (fetch e FallbackUrl w)) of
                           Some movies \<Rightarrow> movies
                         | None \<Rightarrow> hardcodedFallback)),
                 \<lparr>cachedFallbackMovies =
                    Some (case bundled e (fst (fetch e FallbackUrl w)) of
                            Some movies \<Rightarrow> movies
                          | None \<Rightarrow> hardcodedFallback),
                  log = log w @ [Fetch FallbackUrl]\<rparr>))"
  using assms
  by (simp add: getRecommendations_def excluded_ids_def loadFallbackMovies_eq Let_def split: option.splits)

lemma coerce_numbered:
  "coerce_id e (movie_numbered (IdString s)) = movie_numbered (parseInt e s)"
  "coerce_id e (movie_numbered (IdNumber n)) = movie_numbered n"
  by (simp_all add: coerce_id_def movie_numbered_def)

lemma tmdb_id_numbered [simp]: "tmdb_id (movie_numbered i) = i"
  by (simp add: movie_numbered_def)

text \<open>Without a credential, the bundled file holds the ids \<open>"550"\<close> (a string) and 278; the watched id \<open>"550"\<close> is excluded.\<close>

theorem no_key_returns_fallback_list_witness:
  "\<not> has_key env_bundled
   \<and> getRecommendations env_bundled [''550''] [] [''1''] world0
       = (Inr [movie_numbered (Fin 278)],
          \<lparr>cachedFallbackMovies = Some [movie_numbered (Fin 550), movie_numbered (Fin 278)],
           log = [Fetch FallbackUrl]\<rparr>)"
proof -
  have k: "\<not> has_key env_bundled"
    by (simp add: has_key_def env_bundled_def)
  have b: "bundled env_bundled (fst (fetch env_bundled FallbackUrl world0))
             = Some [movie_numbered (Fin 550), movie_numbered (Fin 278)]"
    by (simp add: bundled_def fetch_def bundled_response_def coerce_numbered)
       (simp add: env_bundled_def bundled_response_def coerce_numbered)
  have c: "cachedFallbackMovies world0 = None" "log world0 = []"
    by (simp_all add: world0_def)
  have p: "parseInt env_bundled ''550'' = Fin 550"
    by (simp add: env_bundled_def)
  show ?thesis
    using k no_key_returns_fallback_list [OF k, of "[''550'']" "[]" "[''1'']" world0]
    by (simp add: b c p)
qed

subsection \<open>C3: when every provider call fails\<close>

lemma those_length: "those xs = Some ys \<Longrightarrow> length ys = length xs"
  by (induction xs arbitrary: ys) (auto split: option.splits)

lemma getPopularMovies_fails:
  assumes "\<And>k. slow (net e k (PopularUrl page)) \<or> fails (outcome (net e k (PopularUrl page)))"
  shows "\<exists>err. fst (getPopularMovies e page w) = Inl err"
    and "cachedFallbackMovies (snd (getPopularMovies e page w)) = cachedFallbackMovies w"
proof -
  obtain res w' where f: "fetchWithRetry e (PopularUrl page) maxRetries w = (res, w')"
    by (cases "fetchWithRetry e (PopularUrl page) maxRetries w")
  from fetchWithRetry_all_fail [of e "PopularUrl page" maxRetries w] assms f
  obtain err where "res = Inl err" by auto
  with f show "\<exists>err. fst (getPopularMovies e page w) = Inl err"
    by (simp add: getPopularMovies_def)
  from f fetchWithRetry_cache [of e "PopularUrl page" maxRetries w]
  show "cachedFallbackMovies (snd (getPopularMovies e page w)) = cachedFallbackMovies w"
    by (auto simp: getPopularMovies_def json_def split: sum.splits)
qed

lemma getTrendingMovies_fails:
  assumes "\<And>k. slow (net e k (TrendingUrl tw)) \<or> fails (outcome (net e k (TrendingUrl tw)))"
  shows "\<exists>err. fst (getTrendingMovies e tw w) = Inl err"
    and "cachedFallbackMovies (snd (getTrendingMovies e tw w)) = cachedFallbackMovies w"
proof -
  obtain res w' where f: "fetchWithRetry e (TrendingUrl tw) maxRetries w = (res, w')"
    by (cases "fetchWithRetry e (TrendingUrl tw) maxRetries w")
  from fetchWithRetry_all_fail [of e "TrendingUrl tw" maxRetries w] assms f
  obtain err where "res = Inl err" by auto
  with f show "\<exists>err. fst (getTrendingMovies e tw w) = Inl err"
    by (simp add: getTrendingMovies_def)
  from f fetchWithRetry_cache [of e "TrendingUrl tw" maxRetries w]
  show "cachedFallbackMovies (snd (getTrendingMovies e tw w)) = cachedFallbackMovies w"
    by (auto simp: getTrendingMovies_def json_def split: sum.splits)
qed

lemma gather_fails:
  assumes "\<And>k u. is_provider u \<Longrightarrow> slow (net e k u) \<or> fails (outcome (net e k u))"
  shows "\<exists>w'. gather e [] w = ([], w') \<and> cachedFallbackMovies w' = cachedFallbackMovies w"
proof -
  obtain p w1 where p: "getPopularMovies e 1 w = (p, w1)"
    by (cases "getPopularMovies e 1 w")
  from getPopularMovies_fails [of e 1 w] assms p
  have p': "results_of p = None" "cachedFallbackMovies w1 = cachedFallbackMovies w"
    by auto
  obtain t w2 where t: "getTrendingMovies e Week w1 = (t, w2)"
    by (cases "getTrendingMovies e Week w1")
  from getTrendingMovies_fails [of e Week w1] assms t
  have t': "results_of t = None" "cachedFallbackMovies w2 = cachedFallbackMovies w1"
    by auto
  from p p' t t' show ?thesis
    by (simp add: gather_def)
qed

lemma bundled_empty:
  "bundled e res = Some [] \<longleftrightarrow> (\<exists>r. res = Inr r \<and> ok r \<and> body r = FallbackData [])"
  by (cases res) (auto simp: bundled_def split: payload.splits dest: those_length)

text \<open>Failures before the timer fires: three attempts, then the error is thrown.\<close>

lemma fetchWithRetry_fails_thrice:
  assumes "\<And>k. \<not> slow (net e k u) \<and> fails (outcome (net e k u))"
  shows "\<exists>err. fetchWithRetry e u maxRetries w
           = (Inl err, w\<lparr>log := log w @ [Fetch u, Delay 500, Fetch u, Delay 500, Fetch u]\<rparr>)"
proof -
  let ?w1 = "w\<lparr>log := log w @ [Fetch u, Delay retryDelay]\<rparr>"
  let ?w2 = "?w1\<lparr>log := log ?w1 @ [Fetch u, Delay retryDelay]\<rparr>"
  have 1: "fetchWithRetry e u 2 w = fetchWithRetry e u 1 ?w1"
    using fetchWithRetry_retry [of e w u 2] assms by simp
  have 2: "fetchWithRetry e u 1 ?w1 = fetchWithRetry e u 0 ?w2"
    using fetchWithRetry_retry [of e ?w1 u 1] assms by simp
  from fetchWithRetry_give_up [of e ?w2 u 0] assms obtain err where
    "fetchWithRetry e u 0 ?w2 = (Inl err, ?w2\<lparr>log := log ?w2 @ [Fetch u]\<rparr>)"
    by auto
  with 1 2 show ?thesis
    by (simp add: maxRetries_def retryDelay_def)
qed

lemma gather_fast_failures:
  assumes "has_key e"
    and "\<And>k u. is_provider u \<Longrightarrow> \<not> slow (net e k u) \<and> fails (outcome (net e k u))"
  shows "gather e [] w = ([], w\<lparr>log := log w @ failed_provider_calls\<rparr>)"
proof -
  from fetchWithRetry_fails_thrice [of e "PopularUrl 1" w] assms(2) obtain err where
    p: "fetchWithRetry e (PopularUrl 1) maxRetries w
          = (Inl err, w\<lparr>log := log w @ [Fetch (PopularUrl 1), Delay 500, Fetch (PopularUrl 1),
                                       Delay 500, Fetch (PopularUrl 1)]\<rparr>)"
    by auto
  let ?w1 = "w\<lparr>log := log w @ [Fetch (PopularUrl 1), Delay 500, Fetch (PopularUrl 1),
                                       Delay 500, Fetch (PopularUrl 1)]\<rparr>"
  from fetchWithRetry_fails_thrice [of e "TrendingUrl Week" ?w1] assms(2) obtain err' where
    t: "fetchWithRetry e (TrendingUrl Week) maxRetries ?w1
          = (Inl err', ?w1\<lparr>log := log ?w1 @ [Fetch (TrendingUrl Week), Delay 500,
               Fetch (TrendingUrl Week), Delay 500, Fetch (TrendingUrl Week)]\<rparr>)"
    by auto
  from assms(1) p t show ?thesis
    by (simp add: gather_def getPopularMovies_def getTrendingMovies_def failed_provider_calls_def
        del: One_nat_def)
qed

lemma provider_down_fails:
  "is_provider u \<Longrightarrow> \<not> slow (net_provider_down k u) \<and> fails (outcome (net_provider_down k u))"
  by (cases u) simp_all

lemma empty_bundle_fails:
  "is_provider u \<Longrightarrow> \<not> slow (net_empty_bundle k u) \<and> fails (outcome (net_empty_bundle k u))"
  by (cases u) simp_all

lemma gather_provider_down:
  "gather env_provider_down [] world0
     = ([], \<lparr>cachedFallbackMovies = None, log = failed_provider_calls\<rparr>)"
  using gather_fast_failures [of env_provider_down world0] provider_down_fails
  by (simp add: has_key_def env_provider_down_def world0_def)

lemma gather_down:
  "gather env_down [] world0
     = ([], \<lparr>cachedFallbackMovies = None, log = failed_provider_calls\<rparr>)"
  using gather_fast_failures [of env_down world0]
  by (simp add: has_key_def env_down_def world0_def)

lemma gather_empty_bundle:
  "gather env_empty_bundle [] world0
     = ([], \<lparr>cachedFallbackMovies = None, log = failed_provider_calls\<rparr>)"
  using gather_fast_failures [of env_empty_bundle world0] empty_bundle_fails
  by (simp add: has_key_def env_empty_bundle_def world0_def)

text \<open>
  C3, as stated, fails. There is a credential, every request to the provider is answered
  with a response that is not \<open>ok\<close> (each of the two calls is tried three times), and the
  bundled file loads, with an empty array \<open>popular\<close>: \<open>getRecommendations([], [], [])\<close>
  returns the empty list.
\<close>

theorem empty_bundle_gives_no_recommendations:
  "has_key env_empty_bundle
   \<and> fails (outcome (net env_empty_bundle 0 (PopularUrl 1)))
   \<and> fails (outcome (net env_empty_bundle 5 (TrendingUrl Week)))
   \<and> bundled env_empty_bundle (Inr \<lparr>ok = True, body = FallbackData []\<rparr>) = Some []
   \<and> getRecommendations env_empty_bundle [] [] [] world0
       = (Inr [],
          \<lparr>cachedFallbackMovies = Some [], log = failed_provider_calls @ [Fetch FallbackUrl]\<rparr>)"
proof -
  have k: "has_key env_empty_bundle"
    by (simp add: has_key_def env_empty_bundle_def)
  have f: "fails (outcome (net env_empty_bundle 0 (PopularUrl 1)))"
    "fails (outcome (net env_empty_bundle 5 (TrendingUrl Week)))"
    by (simp_all add: env_empty_bundle_def)
  have b: "bundled env_empty_bundle (Inr \<lparr>ok = True, body = FallbackData []\<rparr>) = Some []"
    by (simp add: bundled_def)
  have l: "fst (fetch env_empty_bundle FallbackUrl
                  \<lparr>cachedFallbackMovies = None, log = failed_provider_calls\<rparr>)
             = Inr \<lparr>ok = True, body = FallbackData []\<rparr>"
    by (simp add: fetch_def env_empty_bundle_def)
  have "getRecommendations env_empty_bundle [] [] [] world0
       = (Inr [],
          \<lparr>cachedFallbackMovies = Some [], log = failed_provider_calls @ [Fetch FallbackUrl]\<rparr>)"
    by (simp add: getRecommendations_def excluded_ids_def uniqueRecommendations_def k
        gather_empty_bundle loadFallbackMovies_eq l b)
  with k f b show ?thesis
    by simp
qed

text \<open>
  C3 (amended). If every request to the provider fails (it times out, the fetch rejects
  or the response is not \<open>ok\<close>), \<open>getRecommendations([], [], [])\<close> does not throw (\<open>Inr\<close>) and
  returns the whole fallback list: the cached list if there is one, else the bundled
  dataset if the file loads, else, the file not loading, the two hardcoded movies. With
  a credential the provider calls come first, add nothing and leave the cache as it
  was. The list returned is empty only if the cached list is empty or the bundled file
  loads with an empty array \<open>popular\<close>.
\<close>

theorem failing_provider_returns_fallback_list:
  assumes "\<forall>k u. is_provider u \<longrightarrow> slow (net e k u) \<or> fails (outcome (net e k u))"
  shows "let w1 = (if has_key e then snd (gather e [] w) else w);
             fallback = (case cachedFallbackMovies w of
                           Some cached \<Rightarrow> cached
                         | None \<Rightarrow> (case bundled e (fst (fetch e FallbackUrl w1)) of
                                      Some movies \<Rightarrow> movies
                                    | None \<Rightarrow> hardcodedFallback))
         in getRecommendations e [] [] [] w
              = (Inr fallback,
                 (case cachedFallbackMovies w of
                    Some cached \<Rightarrow> w1
                  | None \<Rightarrow> \<lparr>cachedFallbackMovies = Some fallback,
                             log = log w1 @ [Fetch FallbackUrl]\<rparr>))
          \<and> (has_key e \<longrightarrow> fst (gather e [] w) = [])
          \<and> cachedFallbackMovies w1 = cachedFallbackMovies w
          \<and> length hardcodedFallback = 2
          \<and> (fallback = []
               \<longrightarrow> cachedFallbackMovies w = Some []
                   \<or> (cachedFallbackMovies w = None
                       \<and> (\<exists>r. fst (fetch e FallbackUrl w1) = Inr r \<and> ok r
                                \<and> body r = FallbackData [])))"
proof -
  define w1 where "w1 = (if has_key e then snd (gather e [] w) else w)"
  define fallback where "fallback = (case cachedFallbackMovies w of
                           Some cached \<Rightarrow> cached
                         | None \<Rightarrow> (case bundled e (fst (fetch e FallbackUrl w1)) of
                                      Some movies \<Rightarrow> movies
                                    | None \<Rightarrow> hardcodedFallback))"
  have two: "length hardcodedFallback = 2"
    by (simp add: hardcodedFallback_def)
  from gather_fails [of e w] assms obtain w' where
    g: "gather e [] w = ([], w')" "cachedFallbackMovies w' = cachedFallbackMovies w"
    by blast
  have c: "cachedFallbackMovies w1 = cachedFallbackMovies w"
    using g by (simp add: w1_def)
  have acc: "has_key e \<longrightarrow> fst (gather e [] w) = []"
    using g by simp
  have load: "loadFallbackMovies e w1
      = (Inr fallback,
         (case cachedFallbackMovies w of
            Some cached \<Rightarrow> w1
          | None \<Rightarrow> \<lparr>cachedFallbackMovies = Some fallback, log = log w1 @ [Fetch FallbackUrl]\<rparr>))"
    using c by (simp add: loadFallbackMovies_eq fallback_def Let_def split: option.splits)
  have r: "getRecommendations e [] [] [] w
      = (Inr fallback,
         (case cachedFallbackMovies w of
            Some cached \<Rightarrow> w1
          | None \<Rightarrow> \<lparr>cachedFallbackMovies = Some fallback, log = log w1 @ [Fetch FallbackUrl]\<rparr>))"
  proof (cases "has_key e")
    case False
    then have "w1 = w" by (simp add: w1_def)
    with False load show ?thesis
      by (simp add: getRecommendations_def excluded_ids_def)
  next
    case True
    then have "w1 = w'" using g by (simp add: w1_def)
    with True load g(1) show ?thesis
      by (simp add: getRecommendations_def excluded_ids_def uniqueRecommendations_def)
  qed
  have e: "cachedFallbackMovies w = Some []
             \<or> (cachedFallbackMovies w = None
                 \<and> (\<exists>r. fst (fetch e FallbackUrl w1) = Inr r \<and> ok r \<and> body r = FallbackData []))"
    if "fallback = []"
  proof (cases "cachedFallbackMovies w")
    case (Some cached)
    with that show ?thesis by (simp add: fallback_def)
  next
    case None
    show ?thesis
    proof (cases "bundled e (fst (fetch e FallbackUrl w1))")
      case None
      with that \<open>cachedFallbackMovies w = None\<close> two show ?thesis
        by (simp add: fallback_def)
    next
      case (Some movies)
      with that \<open>cachedFallbackMovies w = None\<close> have "bundled e (fst (fetch e FallbackUrl w1)) = Some []"
        by (simp add: fallback_def)
      with \<open>cachedFallbackMovies w = None\<close> show ?thesis
        by (simp add: bundled_empty)
    qed
  qed
  from r acc c two e show ?thesis
    unfolding Let_def w1_def [symmetric] fallback_def [symmetric] by blast
qed

text \<open>
  The provider answers every request with a response that is not \<open>ok\<close> and the bundled
  file loads: the two bundled movies are returned. Every request is rejected, also the
  one for the bundled file: the two hardcoded movies are returned.
\<close>

theorem failing_provider_returns_fallback_list_witness:
  "getRecommendations env_provider_down [] [] [] world0
     = (Inr [movie_numbered (Fin 550), movie_numbered (Fin 278)],
        \<lparr>cachedFallbackMovies = Some [movie_numbered (Fin 550), movie_numbered (Fin 278)],
         log = failed_provider_calls @ [Fetch FallbackUrl]\<rparr>)
   \<and> getRecommendations env_down [] [] [] world0
     = (Inr hardcodedFallback,
        \<lparr>cachedFallbackMovies = Some hardcodedFallback,
         log = failed_provider_calls @ [Fetch FallbackUrl]\<rparr>)
   \<and> hardcodedFallback \<noteq> [movie_numbered (Fin 550), movie_numbered (Fin 278)]"
proof -
  have "fails (outcome (net_provider_down k u))" if "is_provider u" for k u
    using that by (cases u) simp_all
  then have a: "\<forall>k u. is_provider u
      \<longrightarrow> slow (net env_provider_down k u) \<or> fails (outcome (net env_provider_down k u))"
    by (simp add: env_provider_down_def)
  have a': "\<forall>k u. is_provider u \<longrightarrow> slow (net env_down k u) \<or> fails (outcome (net env_down k u))"
    by (simp add: env_down_def)
  have k: "has_key env_provider_down" "has_key env_down"
    by (simp_all add: has_key_def env_provider_down_def env_down_def)
  have c: "cachedFallbackMovies world0 = None"
    by (simp add: world0_def)
  have b: "bundled env_provider_down
             (fst (fetch env_provider_down FallbackUrl
                \<lparr>cachedFallbackMovies = None, log = failed_provider_calls\<rparr>))
           = Some [movie_numbered (Fin 550), movie_numbered (Fin 278)]"
    by (simp add: bundled_def fetch_def bundled_response_def coerce_numbered)
       (simp add: env_provider_down_def bundled_response_def coerce_numbered)
  have b': "bundled env_down
             (fst (fetch env_down FallbackUrl
                \<lparr>cachedFallbackMovies = None, log = failed_provider_calls\<rparr>))
           = None"
    by (simp add: bundled_def fetch_def env_down_def)
  have d: "hardcodedFallback \<noteq> [movie_numbered (Fin 550), movie_numbered (Fin 278)]"
    by (simp add: hardcodedFallback_def movie_numbered_def)
  show ?thesis
    using failing_provider_returns_fallback_list [OF a, of world0]
      failing_provider_returns_fallback_list [OF a', of world0] d
    by (simp add: Let_def k c b b' gather_provider_down gather_down)
qed

subsection \<open>C5: the de-duplicated list\<close>











section \<open>Verification of the mixed recommendations\<close>

subsection \<open>C8: at most ten, all different\<close>

lemma addCategory_invariant:
  assumes "addCategory ms (mixed, addedIds, added) = (mixed', addedIds', added')"
    and "distinct (map simple_id mixed)" "set (map simple_id mixed) = addedIds"
  shows "distinct (map simple_id mixed') \<and> set (map simple_id mixed') = addedIds'"
  using assms
proof (induction ms arbitrary: mixed addedIds added)
  case Nil
  then show ?case by simp
next
  case (Cons movie rest)
  show ?case
  proof (cases "simple_id movie \<notin> addedIds \<and> added < maxPerCategory")
    case True
    with Cons.prems(1) have
      "addCategory rest (mixed @ [movie], insert (simple_id movie) addedIds, added + 1) = (mixed', addedIds', added')"
      by simp
    moreover have "distinct (map simple_id (mixed @ [movie]))"
      using True Cons.prems(2,3) by auto
    moreover have "set (map simple_id (mixed @ [movie])) = insert (simple_id movie) addedIds"
      using Cons.prems(3) by auto
    ultimately show ?thesis
      by (rule Cons.IH)
  next
    case False
    with Cons.prems(1) have "addCategory rest (mixed, addedIds, added) = (mixed', addedIds', added')"
      by auto
    from Cons.IH [OF this Cons.prems(2,3)] show ?thesis .
  qed
qed

lemma forEachCategory_invariant:
  assumes "forEachCategory cs (mixed, addedIds) = (mixed', addedIds')"
    and "distinct (map simple_id mixed)" "set (map simple_id mixed) = addedIds"
  shows "distinct (map simple_id mixed')"
  using assms
proof (induction cs arbitrary: mixed addedIds)
  case Nil
  then show ?case by simp
next
  case (Cons c cs)
  obtain m1 a1 n1 where a: "addCategory c (mixed, addedIds, 0) = (m1, a1, n1)"
    by (cases "addCategory c (mixed, addedIds, 0)")
  from addCategory_invariant [OF a Cons.prems(2,3)]
  have i: "distinct (map simple_id m1)" "set (map simple_id m1) = a1"
    by simp_all
  from Cons.prems(1) a have "forEachCategory cs (m1, a1) = (mixed', addedIds')"
    by simp
  from Cons.IH [OF this i] show ?case .
qed

text \<open>
  C8. For every three arrays that the fetchers return, \<open>getMixedRecommendations\<close> returns
  at most 10 entries, no two of them with the same id.
\<close>

theorem mixed_recommendations_bounded_and_distinct:
  "length (getMixedRecommendations popular trending topRated) \<le> 10
   \<and> distinct (map simple_id (getMixedRecommendations popular trending topRated))"
proof -
  obtain mixed addedIds where
    f: "forEachCategory [popular, trending, topRated] ([], {}) = (mixed, addedIds)"
    by (cases "forEachCategory [popular, trending, topRated] ([], {})")
  from forEachCategory_invariant [OF f] have "distinct (map simple_id mixed)"
    by simp
  then have "distinct (map simple_id (take 10 mixed))"
    using distinct_take [of "map simple_id mixed" 10] by (simp add: take_map)
  with f show ?thesis
    by (simp add: getMixedRecommendations_def)
qed

end
